theory Spec2Isabelle
  imports Complex_Main
begin

section \<open>Domain colouring: the colour-mapping engine of cplot\<close>

text \<open>
  The development embeds \<^verbatim>\<open>src/cplot/main.py\<close>: \<^verbatim>\<open>get_srgb1\<close> (magnitude scaling,
  colour-space mapping, clipping), \<^verbatim>\<open>_get_z_grid\<close> and \<^verbatim>\<open>plot\<close> (the contour levels and
  the masking of phase contours at the branch cut).

  Numbers. The program computes with IEEE doubles in numpy arrays. A double is modelled
  by the type \<open>fl\<close>: a finite value carries the real number it stands for, and the three
  special values \<open>PInf\<close>, \<open>NInf\<close>, \<open>NaN\<close> follow the IEEE rules numpy applies (an
  invalid operation yields \<open>NaN\<close> and a warning, never an exception). The results of
  \<^verbatim>\<open>**\<close> and of \<^verbatim>\<open>np.abs\<close>, which leave the range of doubles on finite samples of a
  large or small magnitude, overflow to infinity and underflow to zero (\<open>to_double\<close>).
  The rounding of the digits of a finite result and the sign of zero are not modelled,
  and sums, products and quotients of finite values are taken as the real numbers they
  round. Configuration numbers (\<^verbatim>\<open>alpha\<close>, the domain bounds, the
  contour levels) are finite and modelled as \<open>real\<close>.
\<close>

subsection \<open>Doubles with the IEEE special values\<close>

datatype fl = Fin real | PInf | NInf | NaN

instantiation fl :: "{plus, minus, uminus, times, inverse, abs, ord}"
begin

fun plus_fl :: "fl \<Rightarrow> fl \<Rightarrow> fl" where
  "plus_fl NaN _ = NaN"
| "plus_fl _ NaN = NaN"
| "plus_fl PInf NInf = NaN"
| "plus_fl NInf PInf = NaN"
| "plus_fl PInf _ = PInf"
| "plus_fl _ PInf = PInf"
| "plus_fl NInf _ = NInf"
| "plus_fl _ NInf = NInf"
| "plus_fl (Fin a) (Fin b) = Fin (a + b)"

fun uminus_fl :: "fl \<Rightarrow> fl" where
  "uminus_fl NaN = NaN"
| "uminus_fl PInf = NInf"
| "uminus_fl NInf = PInf"
| "uminus_fl (Fin a) = Fin (- a)"

definition minus_fl :: "fl \<Rightarrow> fl \<Rightarrow> fl" where
  "minus_fl x y = x + (- y)"

fun times_fl :: "fl \<Rightarrow> fl \<Rightarrow> fl" where
  "times_fl NaN _ = NaN"
| "times_fl _ NaN = NaN"
| "times_fl (Fin a) (Fin b) = Fin (a * b)"
| "times_fl (Fin a) PInf = (if a = 0 then NaN else if 0 < a then PInf else NInf)"
| "times_fl (Fin a) NInf = (if a = 0 then NaN else if 0 < a then NInf else PInf)"
| "times_fl PInf (Fin b) = (if b = 0 then NaN else if 0 < b then PInf else NInf)"
| "times_fl NInf (Fin b) = (if b = 0 then NaN else if 0 < b then NInf else PInf)"
| "times_fl PInf PInf = PInf"
| "times_fl NInf NInf = PInf"
| "times_fl PInf NInf = NInf"
| "times_fl NInf PInf = NInf"

text \<open>Division by a zero takes the zero as \<open>+0\<close>.\<close>

fun divide_fl :: "fl \<Rightarrow> fl \<Rightarrow> fl" where
  "divide_fl NaN _ = NaN"
| "divide_fl _ NaN = NaN"
| "divide_fl (Fin a) (Fin b) =
     (if b = 0 then (if a = 0 then NaN else if 0 < a then PInf else NInf) else Fin (a / b))"
| "divide_fl (Fin a) _ = Fin 0"
| "divide_fl PInf (Fin b) = (if 0 \<le> b then PInf else NInf)"
| "divide_fl NInf (Fin b) = (if 0 \<le> b then NInf else PInf)"
| "divide_fl _ _ = NaN"

definition inverse_fl :: "fl \<Rightarrow> fl" where
  "inverse_fl x = divide (Fin 1) x"

fun abs_fl :: "fl \<Rightarrow> fl" where
  "abs_fl NaN = NaN"
| "abs_fl PInf = PInf"
| "abs_fl NInf = PInf"
| "abs_fl (Fin a) = Fin \<bar>a\<bar>"

text \<open>Every comparison with \<open>NaN\<close> is false.\<close>

fun less_fl :: "fl \<Rightarrow> fl \<Rightarrow> bool" where
  "less_fl NaN _ = False"
| "less_fl _ NaN = False"
| "less_fl (Fin a) (Fin b) = (a < b)"
| "less_fl _ NInf = False"
| "less_fl NInf _ = True"
| "less_fl PInf _ = False"
| "less_fl _ PInf = True"

fun less_eq_fl :: "fl \<Rightarrow> fl \<Rightarrow> bool" where
  "less_eq_fl NaN _ = False"
| "less_eq_fl _ NaN = False"
| "less_eq_fl (Fin a) (Fin b) = (a \<le> b)"
| "less_eq_fl NInf _ = True"
| "less_eq_fl _ PInf = True"
| "less_eq_fl _ _ = False"

instance ..

end

fun is_inf :: "fl \<Rightarrow> bool" where
  "is_inf PInf = True"
| "is_inf NInf = True"
| "is_inf _ = False"

fun is_finite :: "fl \<Rightarrow> bool" where
  "is_finite (Fin _) = True"
| "is_finite _ = False"

text \<open>
  The range of doubles. The largest double is \<open>2^1024 - 2^971\<close>; a real result of at
  least \<open>2^1024 - 2^970\<close>, half a unit in the last place above it, rounds to infinity.
  The smallest positive double is \<open>2^-1074\<close>; a result of magnitude at most \<open>2^-1075\<close>
  rounds to zero. The normal doubles, which carry 53 digits, start at \<open>2^-1022\<close>.
\<close>

definition overflow_bound :: real where
  "overflow_bound = 2 ^ 1024 - 2 ^ 970"

definition underflow_bound :: real where
  "underflow_bound = 1 / 2 ^ 1075"

definition min_normal :: real where
  "min_normal = 1 / 2 ^ 1022"

definition to_double :: "real \<Rightarrow> fl" where
  "to_double x =
     (if overflow_bound \<le> x then PInf
      else if x \<le> - overflow_bound then NInf
      else if \<bar>x\<bar> \<le> underflow_bound then Fin 0
      else Fin x)"

subsection \<open>The numpy functions the program calls\<close>

text \<open>\<^verbatim>\<open>np.cos\<close>, \<^verbatim>\<open>np.sin\<close>: invalid at an infinity.\<close>

fun np_cos :: "fl \<Rightarrow> fl" where
  "np_cos (Fin a) = Fin (cos a)"
| "np_cos _ = NaN"

fun np_sin :: "fl \<Rightarrow> fl" where
  "np_sin (Fin a) = Fin (sin a)"
| "np_sin _ = NaN"

text \<open>
  \<^verbatim>\<open>x ** a\<close> for a double \<open>x\<close> and a finite exponent \<open>a\<close> (C \<^verbatim>\<open>pow\<close>): \<open>x ** 0\<close> is 1 for
  every \<open>x\<close>, also for \<open>NaN\<close>; a power of a finite base overflows to infinity and
  underflows to zero.
\<close>

definition is_int :: "real \<Rightarrow> bool" where
  "is_int a = (a = of_int \<lfloor>a\<rfloor>)"

fun np_power :: "fl \<Rightarrow> real \<Rightarrow> fl" where
  "np_power x a =
     (if a = 0 then Fin 1
      else case x of
        NaN \<Rightarrow> NaN
      | PInf \<Rightarrow> (if 0 < a then PInf else Fin 0)
      | NInf \<Rightarrow> (if 0 < a then (if is_int a \<and> odd \<lfloor>a\<rfloor> then NInf else PInf) else Fin 0)
      | Fin v \<Rightarrow>
          (if 0 < v then to_double (v powr a)
           else if v = 0 then (if 0 < a then Fin 0 else PInf)
           else if is_int a then to_double ((if odd \<lfloor>a\<rfloor> then - 1 else 1) * (\<bar>v\<bar> powr a))
           else NaN))"

text \<open>
  A complex sample is the pair of its real and imaginary parts. \<^verbatim>\<open>np.abs\<close> of a complex
  number is C \<^verbatim>\<open>hypot\<close>: infinite as soon as one part is, even when the other is \<open>NaN\<close>,
  and infinite for finite parts whose distance from the origin overflows.
\<close>

type_synonym cfl = "fl \<times> fl"

definition creal :: "cfl \<Rightarrow> fl" where
  "creal z = fst z"

definition cimag :: "cfl \<Rightarrow> fl" where
  "cimag z = snd z"

fun hypot :: "fl \<Rightarrow> fl \<Rightarrow> fl" where
  "hypot (Fin x) (Fin y) = to_double (sqrt (x\<^sup>2 + y\<^sup>2))"
| "hypot x y = (if is_inf x \<or> is_inf y then PInf else NaN)"

definition np_abs :: "cfl \<Rightarrow> fl" where
  "np_abs z = hypot (creal z) (cimag z)"

text \<open>
  \<^verbatim>\<open>np.arctan2(y, x)\<close>: the angle of the point \<open>(x, y)\<close> in \<open>(-\<pi>, \<pi>]\<close>, with the C99 values
  at the infinities.
\<close>

definition atan2 :: "real \<Rightarrow> real \<Rightarrow> real" where
  "atan2 y x =
     (if 0 < x then arctan (y / x)
      else if x < 0 then (if 0 \<le> y then arctan (y / x) + pi else arctan (y / x) - pi)
      else if 0 < y then pi / 2
      else if y < 0 then - (pi / 2)
      else 0)"

fun arctan2 :: "fl \<Rightarrow> fl \<Rightarrow> fl" where
  "arctan2 NaN _ = NaN"
| "arctan2 _ NaN = NaN"
| "arctan2 (Fin y) (Fin x) = Fin (atan2 y x)"
| "arctan2 PInf PInf = Fin (pi / 4)"
| "arctan2 NInf PInf = Fin (- (pi / 4))"
| "arctan2 PInf NInf = Fin (3 * pi / 4)"
| "arctan2 NInf NInf = Fin (- (3 * pi / 4))"
| "arctan2 PInf (Fin x) = Fin (pi / 2)"
| "arctan2 NInf (Fin x) = Fin (- (pi / 2))"
| "arctan2 (Fin y) PInf = Fin 0"
| "arctan2 (Fin y) NInf = (if 0 \<le> y then Fin pi else Fin (- pi))"

text \<open>\<^verbatim>\<open>np.mod(x, m)\<close> for a finite modulus \<open>m\<close>: the remainder has the sign of \<open>m\<close>.\<close>

fun np_mod :: "fl \<Rightarrow> real \<Rightarrow> fl" where
  "np_mod (Fin a) m = (if m = 0 then NaN else Fin (a - of_int \<lfloor>a / m\<rfloor> * m))"
| "np_mod _ m = NaN"

subsection \<open>The magnitude scaler\<close>

text \<open>
  \<^verbatim>\<open>abs_scaling\<close>, the closure of \<^verbatim>\<open>get_srgb1\<close> over \<^verbatim>\<open>alpha\<close>:
  \<^verbatim>\<open>r ** alpha / (r ** alpha + 1)\<close>.
\<close>

definition abs_scaling :: "real \<Rightarrow> fl \<Rightarrow> fl" where
  "abs_scaling alpha r = np_power r alpha / (np_power r alpha + Fin 1)"

subsection \<open>Strings and errors\<close>

text \<open>
  A failing \<^verbatim>\<open>assert\<close> raises \<^verbatim>\<open>AssertionError\<close> with the message of the statement (empty
  when it has none), a float division by the integer zero raises \<^verbatim>\<open>ZeroDivisionError\<close>,
  and \<^verbatim>\<open>np.linspace\<close> with a negative count raises \<^verbatim>\<open>ValueError\<close>.
\<close>

datatype error = AssertionError string | ZeroDivisionError | ValueError

text \<open>
  A Python string is modelled by the bytes of its UTF-8 encoding. \<^verbatim>\<open>str.upper\<close> maps a
  string character by character. On the ASCII characters it moves the letters \<open>a\<close> to
  \<open>z\<close> (codes 97 to 122) to \<open>A\<close> to \<open>Z\<close> and keeps the others. Ten characters beyond
  ASCII have an upper case made of ASCII letters only: the sharp s (bytes C3 9F) gives
  \<open>SS\<close>, the dotless i (C4 B1) gives \<open>I\<close>, the long s (C5 BF) gives \<open>S\<close>, and the seven
  ligatures U+FB00 to U+FB06 (EF AC 80 to EF AC 86) give \<open>FF\<close>, \<open>FI\<close>, \<open>FL\<close>, \<open>FFI\<close>,
  \<open>FFL\<close>, \<open>ST\<close>, \<open>ST\<close>. The upper case of every other character contains a character
  beyond ASCII; the model keeps the bytes of such a character, which are beyond ASCII
  too, so that the comparison of the result with an ASCII name, its only use in the
  program, has the same outcome.
\<close>

definition upper_char :: "char \<Rightarrow> char" where
  "upper_char c =
     (let n = (of_char c :: nat) in if 97 \<le> n \<and> n \<le> 122 then char_of (n - 32) else c)"

definition special_upper :: "string \<Rightarrow> (string \<times> nat) option" where
  "special_upper s =
     (if take 2 s = [CHR 0xC3, CHR 0x9F] then Some (''SS'', 2)
      else if take 2 s = [CHR 0xC4, CHR 0xB1] then Some (''I'', 2)
      else if take 2 s = [CHR 0xC5, CHR 0xBF] then Some (''S'', 2)
      else if take 3 s = [CHR 0xEF, CHR 0xAC, CHR 0x80] then Some (''FF'', 3)
      else if take 3 s = [CHR 0xEF, CHR 0xAC, CHR 0x81] then Some (''FI'', 3)
      else if take 3 s = [CHR 0xEF, CHR 0xAC, CHR 0x82] then Some (''FL'', 3)
      else if take 3 s = [CHR 0xEF, CHR 0xAC, CHR 0x83] then Some (''FFI'', 3)
      else if take 3 s = [CHR 0xEF, CHR 0xAC, CHR 0x84] then Some (''FFL'', 3)
      else if take 3 s = [CHR 0xEF, CHR 0xAC, CHR 0x85] then Some (''ST'', 3)
      else if take 3 s = [CHR 0xEF, CHR 0xAC, CHR 0x86] then Some (''ST'', 3)
      else None)"

fun upper :: "string \<Rightarrow> string" where
  "upper [] = []"
| "upper (c # cs) =
     (case special_upper (c # cs) of
        Some (u, n) \<Rightarrow> u @ upper (drop (n - 1) cs)
      | None \<Rightarrow> upper_char c # upper cs)"

subsection \<open>Arrays and the colour library\<close>

text \<open>
  An array is its shape and its elements in row-major order. The vectorised numpy
  operations of the program act on each element alone, so each is modelled by the
  function on one element, mapped over the data.
\<close>

record 'a ndarray =
  shape :: "nat list"
  data :: "'a list"

definition map_nd :: "('a \<Rightarrow> 'b) \<Rightarrow> 'a ndarray \<Rightarrow> 'b ndarray" where
  "map_nd g a = \<lparr>shape = shape a, data = map g (data a)\<rparr>"

type_synonym color = "fl \<times> fl \<times> fl"

definition map3 :: "(fl \<Rightarrow> fl) \<Rightarrow> color \<Rightarrow> color" where
  "map3 g p = (case p of (a, b, c) \<Rightarrow> (g a, g b, g c))"

text \<open>
  The conversions of the library \<^verbatim>\<open>colorio\<close> are not part of the repository: they are
  parameters, each a function on one colour triple that returns a triple (it acts on the
  leading axis of length 3 of its argument, point by point, and keeps the other axes).
  \<open>cam16_to_xyz100\<close> is \<^verbatim>\<open>colorio.cs.CAM16UCS(0.69, 20, L_A=64 / np.pi / 5).to_xyz100\<close>,
  the others are the methods of \<^verbatim>\<open>CIELAB()\<close>, \<^verbatim>\<open>OKLAB()\<close>, \<^verbatim>\<open>SrgbLinear()\<close> and \<^verbatim>\<open>HSL()\<close>.
\<close>

record colorio =
  cam16_to_xyz100 :: "color \<Rightarrow> color"
  cielab_to_xyz100 :: "color \<Rightarrow> color"
  oklab_to_xyz100 :: "color \<Rightarrow> color"
  srgb_from_xyz100 :: "color \<Rightarrow> color"
  srgb_to_rgb1 :: "color \<Rightarrow> color"
  hsl_to_rgb1 :: "color \<Rightarrow> color"

text \<open>
  \<^verbatim>\<open>np.moveaxis(srgb_vals, 0, -1)\<close>: the channel axis, first in \<^verbatim>\<open>srgb_vals\<close>, becomes the
  last one. \<open>srgb_vals\<close> is held as the list of the elements' triples, in the order of the
  input's elements.
\<close>

definition moveaxis :: "nat list \<Rightarrow> color list \<Rightarrow> fl ndarray" where
  "moveaxis shp srgb_vals =
     \<lparr>shape = shp @ [3], data = concat (map (\<lambda>(r, g, b). [r, g, b]) srgb_vals)\<rparr>"

subsection \<open>\<^verbatim>\<open>get_srgb1\<close>\<close>

text \<open>\<^verbatim>\<open>srgb_vals[srgb_vals > 1] = 1.0\<close> and \<^verbatim>\<open>srgb_vals[srgb_vals < 0] = 0.0\<close>, on one value.\<close>

definition clip_upper :: "fl \<Rightarrow> fl" where
  "clip_upper v = (if Fin 1 < v then Fin 1 else v)"

definition clip_lower :: "fl \<Rightarrow> fl" where
  "clip_lower v = (if v < Fin 0 then Fin 0 else v)"

text \<open>The branch \<^verbatim>\<open>CAM16\<close>, on one element.\<close>

definition cam16_pts :: "fl \<Rightarrow> fl \<Rightarrow> color" where
  "cam16_pts absval_scaled angle =
     (let r0 = 25;
          offset = 0.916708 * pi;
          rd = Fin r0 - Fin (r0 * 2) * \<bar>absval_scaled - Fin 0.5\<bar>
      in (Fin 100 * absval_scaled,
          rd * np_cos (angle + Fin offset),
          rd * np_sin (angle + Fin offset)))"

definition cam16_srgb_vals :: "colorio \<Rightarrow> fl \<Rightarrow> fl \<Rightarrow> color" where
  "cam16_srgb_vals lib absval_scaled angle =
     (let cam_pts = cam16_pts absval_scaled angle;
          srgb_vals = srgb_to_rgb1 lib (srgb_from_xyz100 lib (cam16_to_xyz100 lib cam_pts));
          srgb_vals = map3 (\<lambda>v. v * Fin 1.1) srgb_vals;
          srgb_vals = map3 clip_upper srgb_vals
      in map3 clip_lower srgb_vals)"

text \<open>The branch \<^verbatim>\<open>CIELAB\<close>.\<close>

definition cielab_pts :: "fl \<Rightarrow> fl \<Rightarrow> color" where
  "cielab_pts absval_scaled angle =
     (let r0 = 45;
          offset = 0.8936868 * pi;
          rd = Fin r0 - Fin (r0 * 2) * \<bar>absval_scaled - Fin 0.5\<bar>
      in (Fin 100 * absval_scaled,
          rd * np_cos (angle + Fin offset),
          rd * np_sin (angle + Fin offset)))"

definition cielab_srgb_vals :: "colorio \<Rightarrow> fl \<Rightarrow> fl \<Rightarrow> color" where
  "cielab_srgb_vals lib absval_scaled angle =
     (let lab_pts = cielab_pts absval_scaled angle;
          srgb_vals = srgb_to_rgb1 lib (srgb_from_xyz100 lib (cielab_to_xyz100 lib lab_pts));
          srgb_vals = map3 clip_upper srgb_vals
      in map3 clip_lower srgb_vals)"

text \<open>The branch \<^verbatim>\<open>OKLAB\<close>.\<close>

definition oklab_pts :: "fl \<Rightarrow> fl \<Rightarrow> color" where
  "oklab_pts absval_scaled angle =
     (let max_lightness = 4.64158795;
          r0 = 0.50;
          offset = 0.8936868 * pi;
          rd = Fin r0 - Fin (r0 * 2) * \<bar>absval_scaled - Fin 0.5\<bar>
      in (Fin max_lightness * absval_scaled,
          rd * np_cos (angle + Fin offset),
          rd * np_sin (angle + Fin offset)))"

definition oklab_srgb_vals :: "colorio \<Rightarrow> fl \<Rightarrow> fl \<Rightarrow> color" where
  "oklab_srgb_vals lib absval_scaled angle =
     (let lab_pts = oklab_pts absval_scaled angle;
          srgb_vals = srgb_to_rgb1 lib (srgb_from_xyz100 lib (oklab_to_xyz100 lib lab_pts));
          srgb_vals = map3 clip_upper srgb_vals
      in map3 clip_lower srgb_vals)"

text \<open>The branch \<^verbatim>\<open>HSL\<close>: only the values below 0 are replaced.\<close>

definition hsl_vals :: "fl \<Rightarrow> fl \<Rightarrow> color" where
  "hsl_vals absval_scaled angle =
     (let offset = 120
      in (np_mod (angle / Fin (2 * pi) * Fin 360 + Fin offset) 360, Fin 1, absval_scaled))"

definition hsl_srgb_vals :: "colorio \<Rightarrow> fl \<Rightarrow> fl \<Rightarrow> color" where
  "hsl_srgb_vals lib absval_scaled angle =
     (let srgb_vals = hsl_to_rgb1 lib (hsl_vals absval_scaled angle)
      in map3 clip_lower srgb_vals)"

text \<open>
  \<^verbatim>\<open>get_srgb1(z, alpha, colorspace)\<close>. The first \<^verbatim>\<open>assert\<close> has no message; the one of
  the last branch carries the f-string.
\<close>

definition illegal_colorspace :: "string \<Rightarrow> error" where
  "illegal_colorspace colorspace =
     AssertionError (''Illegal colorspace '' @ colorspace @ ''. Pick one of CAM16, CIELAB, HSL.'')"

definition get_srgb1 :: "colorio \<Rightarrow> cfl ndarray \<Rightarrow> real \<Rightarrow> string \<Rightarrow> error + fl ndarray" where
  "get_srgb1 lib z alpha colorspace =
     (if \<not> 0 \<le> alpha then Inl (AssertionError [])
      else
        let angle = map (\<lambda>c. arctan2 (cimag c) (creal c)) (data z);
            absval_scaled = map (\<lambda>c. abs_scaling alpha (np_abs c)) (data z)
        in if upper colorspace = ''CAM16'' then
             Inr (moveaxis (shape z) (map2 (cam16_srgb_vals lib) absval_scaled angle))
           else if upper colorspace = ''CIELAB'' then
             Inr (moveaxis (shape z) (map2 (cielab_srgb_vals lib) absval_scaled angle))
           else if upper colorspace = ''OKLAB'' then
             Inr (moveaxis (shape z) (map2 (oklab_srgb_vals lib) absval_scaled angle))
           else if upper colorspace \<noteq> ''HSL'' then
             Inl (illegal_colorspace colorspace)
           else
             Inr (moveaxis (shape z) (map2 (hsl_srgb_vals lib) absval_scaled angle)))"

subsection \<open>\<^verbatim>\<open>_get_z_grid\<close>\<close>

text \<open>An exception of a step ends the function: the steps are chained by \<open>bind_err\<close>.\<close>

definition bind_err :: "error + 'a \<Rightarrow> ('a \<Rightarrow> error + 'b) \<Rightarrow> error + 'b" where
  "bind_err m k = (case m of Inl e \<Rightarrow> Inl e | Inr v \<Rightarrow> k v)"

text \<open>
  \<^verbatim>\<open>np.linspace(start, stop, num)\<close> with the end point included; the domain bounds are
  Python floats and the counts Python integers. The grid holds finite complex numbers,
  pairs of reals.
\<close>

definition linspace :: "real \<Rightarrow> real \<Rightarrow> int \<Rightarrow> error + real list" where
  "linspace start stop num =
     (if num < 0 then Inl ValueError
      else if num = 1 then Inr [start]
      else Inr (map (\<lambda>i. start + real i * ((stop - start) / real_of_int (num - 1)))
                  [0 ..< nat num]))"

definition get_z_grid ::
  "real \<times> real \<Rightarrow> real \<times> real \<Rightarrow> int \<times> int \<Rightarrow> error + (real \<times> real) ndarray" where
  "get_z_grid xminmax yminmax n =
     (let xmin = fst xminmax; xmax = snd xminmax;
          ymin = fst yminmax; ymax = snd yminmax;
          nx = fst n; ny = snd n
      in if nx = 0 then Inl ZeroDivisionError
         else
           let hx = (xmax - xmin) / real_of_int nx in
           bind_err (linspace (xmin + hx / 2) (xmax - hx / 2) nx) (\<lambda>x.
             if ny = 0 then Inl ZeroDivisionError
             else
               let hy = (ymax - ymin) / real_of_int ny in
               bind_err (linspace (ymin + hy / 2) (ymax - hy / 2) ny) (\<lambda>y.
                 Inr \<lparr>shape = [length y, length x],
                      data = concat (map (\<lambda>yj. map (\<lambda>xi. (xi, yj)) x) y)\<rparr>)))"

subsection \<open>\<^verbatim>\<open>plot\<close>\<close>

text \<open>
  Complex arithmetic of numpy on pairs, for \<^verbatim>\<open>z = x + 1j * y\<close>, and \<^verbatim>\<open>np.angle\<close>.
\<close>

definition cadd :: "cfl \<Rightarrow> cfl \<Rightarrow> cfl" where
  "cadd a b = (creal a + creal b, cimag a + cimag b)"

definition cmul :: "cfl \<Rightarrow> cfl \<Rightarrow> cfl" where
  "cmul a b = (creal a * creal b - cimag a * cimag b, creal a * cimag b + cimag a * creal b)"

definition np_angle :: "cfl \<Rightarrow> fl" where
  "np_angle w = arctan2 (cimag w) (creal w)"

text \<open>
  The body of the loop over the segments of one level: \<^verbatim>\<open>segment[is_false] = np.nan\<close>
  writes \<open>NaN\<close> into both coordinates of the rows that \<open>is_false\<close> selects. The plotted
  function \<open>f\<close> maps an array element by element.
\<close>

type_synonym point = "fl \<times> fl"

definition is_false :: "fl \<Rightarrow> real \<Rightarrow> bool" where
  "is_false angle level =
     (\<bar>angle - Fin pi\<bar> < \<bar>angle - Fin level\<bar> \<or> \<bar>angle + Fin pi\<bar> < \<bar>angle - Fin level\<bar>)"

definition mask_point :: "(cfl \<Rightarrow> cfl) \<Rightarrow> real \<Rightarrow> point \<Rightarrow> point" where
  "mask_point f level p =
     (case p of (x, y) \<Rightarrow>
        let z = cadd (x, Fin 0) (cmul (Fin 0, Fin 1) (y, Fin 0));
            angle = np_angle (f z)
        in if is_false angle level then (NaN, NaN) else (x, y))"

definition mask_segment :: "(cfl \<Rightarrow> cfl) \<Rightarrow> real \<Rightarrow> point list \<Rightarrow> point list" where
  "mask_segment f level segment = map (mask_point f level) segment"

text \<open>
  \<^verbatim>\<open>for level, allseg in zip(levels, c.allsegs)\<close>: the segment lists beyond the last level,
  if the extractor returned any, stay as they are.
\<close>

definition mask_allsegs ::
  "(cfl \<Rightarrow> cfl) \<Rightarrow> real list \<Rightarrow> point list list list \<Rightarrow> point list list list" where
  "mask_allsegs f levels allsegs =
     map2 (\<lambda>level allseg. map (mask_segment f level) allseg) levels allsegs
     @ drop (length levels) allsegs"

text \<open>
  The calls \<^verbatim>\<open>plot\<close> makes to \<^verbatim>\<open>matplotlib.pyplot\<close>, in order: \<^verbatim>\<open>imshow\<close> with the image
  and its extent, \<^verbatim>\<open>contour\<close> with the two coordinate arrays, the field, the levels and the
  colour. The isoline extractor is a parameter: \<open>allsegs\<close> gives \<^verbatim>\<open>c.allsegs\<close> of the contour
  set it returns for these arguments.
\<close>

datatype plt_call =
  Imshow "fl ndarray" "real \<times> real \<times> real \<times> real"
| Contour "fl ndarray" "fl ndarray" "fl ndarray" "real list" string

record pyplot =
  allsegs :: "fl ndarray \<Rightarrow> fl ndarray \<Rightarrow> fl ndarray \<Rightarrow> real list \<Rightarrow> point list list list"

datatype grid_n = N int | NTuple "int list"

text \<open>\<^verbatim>\<open>np.min\<close> and \<^verbatim>\<open>np.max\<close> of an array of finite numbers raise on an empty array.\<close>

fun np_min :: "real list \<Rightarrow> error + real" where
  "np_min [] = Inl ValueError"
| "np_min (v # vs) = Inr (fold min vs v)"

fun np_max :: "real list \<Rightarrow> error + real" where
  "np_max [] = Inl ValueError"
| "np_max (v # vs) = Inr (fold max vs v)"

definition grid_extent :: "(real \<times> real) ndarray \<Rightarrow> error + real \<times> real \<times> real \<times> real" where
  "grid_extent Z =
     bind_err (np_min (map fst (data Z))) (\<lambda>x0.
     bind_err (np_max (map fst (data Z))) (\<lambda>x1.
     bind_err (np_min (map snd (data Z))) (\<lambda>y0.
     bind_err (np_max (map snd (data Z))) (\<lambda>y1.
       Inr (x0, x1, y0, y1)))))"

text \<open>\<^verbatim>\<open>n\<close> is an integer or a tuple of integers, which must have two components.\<close>

fun grid_counts :: "grid_n \<Rightarrow> error + int \<times> int" where
  "grid_counts (NTuple [nx, ny]) = Inr (nx, ny)"
| "grid_counts (NTuple _) = Inl (AssertionError [])"
| "grid_counts (N k) = Inr (k, k)"

definition gray :: string where
  "gray = ''#a0a0a050''"

definition abs_levels :: "real list" where
  "abs_levels = [0.1, 100.0]"

definition arg_levels :: "real list" where
  "arg_levels = [- 0.5 * pi, 0.0, 0.5 * pi]"

text \<open>
  \<^verbatim>\<open>plot\<close> returns nothing; the model returns what it did: the calls to pyplot and the
  segment lists of the phase contours as the masking loop left them (empty without
  \<^verbatim>\<open>contour_arg\<close>).
\<close>

definition plot ::
  "colorio \<Rightarrow> pyplot \<Rightarrow> (cfl \<Rightarrow> cfl) \<Rightarrow> real \<times> real \<Rightarrow> real \<times> real \<Rightarrow> grid_n \<Rightarrow> real \<Rightarrow> string
     \<Rightarrow> bool \<Rightarrow> bool \<Rightarrow> error + plt_call list \<times> point list list list" where
  "plot lib plt f xminmax yminmax n alpha colorspace contour_abs contour_arg =
     (if \<not> fst xminmax < snd xminmax then Inl (AssertionError [])
      else if \<not> fst yminmax < snd yminmax then Inl (AssertionError [])
      else
        bind_err (grid_counts n) (\<lambda>nxy.
        bind_err (get_z_grid xminmax yminmax nxy) (\<lambda>Z.
          let fZ = map_nd (\<lambda>c. f (Fin (fst c), Fin (snd c))) Z in
          bind_err (get_srgb1 lib fZ alpha colorspace) (\<lambda>img.
          bind_err (grid_extent Z) (\<lambda>extent.
            let Zreal = map_nd (\<lambda>c. Fin (fst c)) Z;
                Zimag = map_nd (\<lambda>c. Fin (snd c)) Z;
                calls1 = [Imshow img extent];
                calls2 =
                  (if contour_abs
                   then [Contour Zreal Zimag (map_nd np_abs fZ) abs_levels gray]
                   else []);
                field = map_nd np_angle fZ;
                calls3 =
                  (if contour_arg
                   then [Contour Zreal Zimag field arg_levels gray]
                   else []);
                segs =
                  (if contour_arg
                   then mask_allsegs f arg_levels (allsegs plt Zreal Zimag field arg_levels)
                   else [])
            in Inr (calls1 @ calls2 @ calls3, segs))))))"

section \<open>The vocabulary of the specification\<close>

text \<open>
  The definitions of this section follow the words of the specification; the properties
  below compare them with the program.
\<close>

text \<open>The scaling law \<open>r^alpha / (r^alpha + 1)\<close>, on real numbers.\<close>

definition scale :: "real \<Rightarrow> real \<Rightarrow> real" where
  "scale r alpha = r powr alpha / (r powr alpha + 1)"

text \<open>
  The bicone construction of the three perceptual spaces: on real numbers, and with the
  same formulas in the arithmetic of doubles for elements that are not finite.
\<close>

definition bicone :: "real \<Rightarrow> real \<Rightarrow> real \<Rightarrow> real \<Rightarrow> real \<Rightarrow> real \<times> real \<times> real" where
  "bicone lightnessScale r0 offset scaledMagnitude angle =
     (let lightness = lightnessScale * scaledMagnitude;
          chromaRadius = r0 - r0 * 2 * \<bar>scaledMagnitude - 0.5\<bar>;
          axis1 = chromaRadius * cos (angle + offset);
          axis2 = chromaRadius * sin (angle + offset)
      in (lightness, axis1, axis2))"

definition bicone_fl :: "real \<Rightarrow> real \<Rightarrow> real \<Rightarrow> fl \<Rightarrow> fl \<Rightarrow> color" where
  "bicone_fl lightnessScale r0 offset scaledMagnitude angle =
     (let lightness = Fin lightnessScale * scaledMagnitude;
          chromaRadius = Fin r0 - Fin r0 * Fin 2 * \<bar>scaledMagnitude - Fin 0.5\<bar>;
          axis1 = chromaRadius * np_cos (angle + Fin offset);
          axis2 = chromaRadius * np_sin (angle + Fin offset)
      in (lightness, axis1, axis2))"

definition fin3 :: "real \<times> real \<times> real \<Rightarrow> color" where
  "fin3 p = (case p of (a, b, c) \<Rightarrow> (Fin a, Fin b, Fin c))"

text \<open>The hue of the HSL branch, \<open>mod(angle / (2\<pi>) \<sqdot> 360 + 120, 360)\<close>, in degrees.\<close>

definition hue :: "real \<Rightarrow> real" where
  "hue angle = (let x = angle / (2 * pi) * 360 + 120 in x - 360 * of_int \<lfloor>x / 360\<rfloor>)"

text \<open>
  Two selector strings match case-insensitively when their upper cases are equal, the
  comparison the program makes. A selector is recognized when it matches one of the
  four names. On strings of ASCII characters the comparison is the equality after
  folding the letters \<open>A\<close> to \<open>Z\<close> to lower case (\<open>ascii_fold\<close>).
\<close>

definition same_ignoring_case :: "string \<Rightarrow> string \<Rightarrow> bool" where
  "same_ignoring_case s t = (upper s = upper t)"

definition recognized :: "string \<Rightarrow> bool" where
  "recognized colorspace =
     (same_ignoring_case colorspace ''CAM16'' \<or> same_ignoring_case colorspace ''CIELAB''
      \<or> same_ignoring_case colorspace ''OKLAB'' \<or> same_ignoring_case colorspace ''HSL'')"

definition ascii :: "string \<Rightarrow> bool" where
  "ascii s = list_all (\<lambda>c. (of_char c :: nat) < 128) s"

definition lower_char :: "char \<Rightarrow> char" where
  "lower_char c =
     (let n = (of_char c :: nat) in if 65 \<le> n \<and> n \<le> 90 then char_of (n + 32) else c)"

definition ascii_fold :: "string \<Rightarrow> string" where
  "ascii_fold s = map lower_char s"

text \<open>The two failures of \<^verbatim>\<open>get_srgb1\<close>, under the names the specification gives them.\<close>

definition InvalidParameter :: error where
  "InvalidParameter = AssertionError []"


text \<open>
  Channel values in the closed interval from 0 to 1. A sample is finite when both its
  parts are. It is in range for \<open>alpha\<close> when moreover, unless \<open>alpha\<close> is 0, its magnitude
  and the power \<open>alpha\<close> of its magnitude are below the threshold at which a double
  overflows.
\<close>

definition in_unit :: "fl \<Rightarrow> bool" where
  "in_unit v = (Fin 0 \<le> v \<and> v \<le> Fin 1)"


definition finite_sample :: "cfl \<Rightarrow> bool" where
  "finite_sample c = (is_finite (creal c) \<and> is_finite (cimag c))"


text \<open>The three channel values of the \<open>i\<close>-th element of an image.\<close>

definition pixel :: "fl ndarray \<Rightarrow> nat \<Rightarrow> color" where
  "pixel img i = (data img ! (3 * i), data img ! (3 * i + 1), data img ! (3 * i + 2))"


text \<open>
  The post-processing the specification describes for the perceptual spaces: multiply
  the decoded values by 1.1, then clip to \<open>[0, 1]\<close>.
\<close>

definition multiplied_and_clipped :: "color \<Rightarrow> color" where
  "multiplied_and_clipped decoded =
     map3 clip_lower (map3 clip_upper (map3 (\<lambda>v. v * Fin 1.1) decoded))"

text \<open>The levels of the contour calls among the calls to pyplot, in order.\<close>

fun contour_levels :: "plt_call list \<Rightarrow> real list list" where
  "contour_levels [] = []"
| "contour_levels (Contour X Y field levels colors # calls) = levels # contour_levels calls"
| "contour_levels (Imshow img extent # calls) = contour_levels calls"

text \<open>
  The masking condition of the specification, on a recomputed angle and the requested
  level: the angle is closer to \<open>\<pi>\<close> or to \<open>-\<pi>\<close> than to the level.
\<close>

definition near_branch_cut :: "real \<Rightarrow> real \<Rightarrow> bool" where
  "near_branch_cut angle level =
     (\<bar>angle - pi\<bar> < \<bar>angle - level\<bar> \<or> \<bar>angle + pi\<bar> < \<bar>angle - level\<bar>)"

text \<open>
  A stand-in colour library for the examples: the perceptual chains render a point as the
  gray of its lightness over 100, the HSL conversion as the gray of its lightness.
\<close>

definition gray_lib :: colorio where
  "gray_lib =
     \<lparr>cam16_to_xyz100 = (\<lambda>p. p),
      cielab_to_xyz100 = (\<lambda>p. p),
      oklab_to_xyz100 = (\<lambda>p. p),
      srgb_from_xyz100 = (\<lambda>p. p),
      srgb_to_rgb1 = (\<lambda>p. (fst p / Fin 100, fst p / Fin 100, fst p / Fin 100)),
      hsl_to_rgb1 = (\<lambda>p. (snd (snd p), snd (snd p), snd (snd p)))\<rparr>"

text \<open>The one-element array holding the sample \<open>1 + 0i\<close>.\<close>

definition one_sample :: "cfl ndarray" where
  "one_sample = \<lparr>shape = [1], data = [(Fin 1, Fin 0)]\<rparr>"

text \<open>
  Three more arrays for the examples: the finite sample \<open>big + 0i\<close> with the double
  \<open>big = 2^700\<close>, whose square overflows; the sample \<open>\<infinity> + 0i\<close>; and the two
  samples \<open>NaN + 0i\<close> and \<open>1 + \<infinity>i\<close>.
\<close>

definition big :: real where
  "big = 2 ^ 700"


definition inf_sample :: "cfl ndarray" where
  "inf_sample = \<lparr>shape = [1], data = [(PInf, Fin 0)]\<rparr>"

definition nan_samples :: "cfl ndarray" where
  "nan_samples = \<lparr>shape = [2], data = [(NaN, Fin 0), (Fin 1, PInf)]\<rparr>"

text \<open>
  A stand-in isoline extractor for the examples: for every field it returns, at each of
  the first two levels, one segment from \<open>-1\<close> to \<open>1\<close> on the real axis, and nothing at
  the third level.
\<close>

definition axis_plt :: pyplot where
  "axis_plt =
     \<lparr>allsegs = (\<lambda>X Y field levels.
        [[[(Fin (- 1), Fin 0), (Fin 1, Fin 0)]], [[(Fin (- 1), Fin 0), (Fin 1, Fin 0)]], []])\<rparr>"

section \<open>Properties\<close>

subsection \<open>The range of doubles\<close>

lemma overflow_bound_gt: "2 ^ 1023 < overflow_bound"
proof -
  have "(2::real) ^ 970 < 2 ^ 1023"
    by (rule power_strict_increasing) simp_all
  moreover have "(2::real) ^ 1024 = 2 * 2 ^ 1023"
    by (simp only: power_Suc [symmetric]) simp
  ultimately show ?thesis unfolding overflow_bound_def by linarith
qed

lemma overflow_bound_le: "overflow_bound \<le> 2 ^ 1024"
  unfolding overflow_bound_def by simp

lemma two_power_in_range:
  assumes "n \<le> 1023"
  shows "(2::real) ^ n < overflow_bound"
proof -
  have "(2::real) ^ n \<le> 2 ^ 1023"
    using assms by (intro power_increasing) simp_all
  then show ?thesis using overflow_bound_gt by linarith
qed

lemma two_power_overflows:
  assumes "1024 \<le> n"
  shows "overflow_bound \<le> (2::real) ^ n"
proof -
  have "(2::real) ^ 1024 \<le> 2 ^ n"
    using assms by (intro power_increasing) simp_all
  then show ?thesis using overflow_bound_le by linarith
qed


lemma underflow_bound_pos: "0 < underflow_bound"
  unfolding underflow_bound_def by simp

lemma underflow_bound_less_min_normal: "underflow_bound < min_normal"
proof -
  have "(2::real) ^ 1022 < 2 ^ 1075"
    by (rule power_strict_increasing) simp_all
  then show ?thesis unfolding underflow_bound_def min_normal_def
    by (simp add: frac_less2)
qed

lemma min_normal_le_one: "min_normal \<le> 1"
  unfolding min_normal_def by simp

lemma underflow_bound_less_one: "underflow_bound < 1"
  using underflow_bound_less_min_normal min_normal_le_one by linarith

lemma one_less_overflow_bound: "1 < overflow_bound"
  using two_power_in_range [of 0] by simp

lemma underflow_less_overflow: "underflow_bound < overflow_bound"
  using underflow_bound_less_one one_less_overflow_bound by linarith

lemma to_double_in_range:
  assumes "underflow_bound < x" and "x < overflow_bound"
  shows "to_double x = Fin x"
  using assms underflow_bound_pos by (simp add: to_double_def)


lemma to_double_one: "to_double 1 = Fin 1"
  using underflow_bound_less_one one_less_overflow_bound by (rule to_double_in_range)

lemma to_double_overflow:
  assumes "overflow_bound \<le> x"
  shows "to_double x = PInf"
  using assms by (simp add: to_double_def)

lemma to_double_underflow:
  assumes "0 \<le> x" and "x \<le> underflow_bound"
  shows "to_double x = Fin 0"
proof -
  have "\<not> overflow_bound \<le> x"
    using assms(2) underflow_less_overflow by linarith
  moreover have "\<not> x \<le> - overflow_bound"
    using assms(1) one_less_overflow_bound by linarith
  moreover have "\<bar>x\<bar> \<le> underflow_bound"
    using assms by simp
  ultimately show ?thesis by (simp add: to_double_def)
qed

lemma to_double_zero: "to_double 0 = Fin 0"
  using underflow_bound_pos by (intro to_double_underflow) simp_all

lemma to_double_nonneg:
  assumes "0 \<le> x"
  shows "to_double x = PInf \<and> overflow_bound \<le> x
    \<or> (\<exists>p. to_double x = Fin p \<and> 0 \<le> p \<and> p \<le> x \<and> x < overflow_bound)"
  using assms one_less_overflow_bound by (auto simp: to_double_def)

subsection \<open>The scaler\<close>

lemma np_power_nonneg_base:
  assumes "0 \<le> r" and "0 < alpha"
  shows "np_power (Fin r) alpha = to_double (r powr alpha)"
  using assms by (simp add: to_double_zero)

lemma abs_scaling_of_power:
  assumes "np_power x alpha = Fin p" and "0 \<le> p"
  shows "abs_scaling alpha x = Fin (p / (p + 1))"
  using assms by (simp add: abs_scaling_def)

lemma abs_scaling_of_infinite_power:
  assumes "np_power x alpha = PInf"
  shows "abs_scaling alpha x = NaN"
  using assms by (simp add: abs_scaling_def)

lemma quotient_in_unit:
  assumes "0 \<le> (p::real)"
  shows "0 \<le> p / (p + 1) \<and> p / (p + 1) \<le> 1"
  using assms by simp

lemma abs_scaling_in_range:
  assumes "0 \<le> r" and "0 < alpha" and "r powr alpha < overflow_bound"
  shows "\<exists>s. abs_scaling alpha (Fin r) = Fin s \<and> 0 \<le> s \<and> s \<le> 1"
proof -
  have "0 \<le> r powr alpha" by simp
  then obtain p where p: "to_double (r powr alpha) = Fin p" "0 \<le> p"
    using to_double_nonneg [of "r powr alpha"] assms(3) by auto
  then have "np_power (Fin r) alpha = Fin p"
    using np_power_nonneg_base [OF assms(1,2)] by simp
  then have "abs_scaling alpha (Fin r) = Fin (p / (p + 1))"
    using p(2) by (rule abs_scaling_of_power)
  then show ?thesis using quotient_in_unit [OF p(2)] by blast
qed

lemma abs_scaling_normal:
  assumes "0 < r" and "0 < alpha" and "min_normal \<le> r powr alpha"
    and "r powr alpha < overflow_bound"
  shows "abs_scaling alpha (Fin r) = Fin (scale r alpha)"
proof -
  have "underflow_bound < r powr alpha"
    using assms(3) underflow_bound_less_min_normal by linarith
  then have "to_double (r powr alpha) = Fin (r powr alpha)"
    using assms(4) by (rule to_double_in_range)
  then have "np_power (Fin r) alpha = Fin (r powr alpha)"
    using np_power_nonneg_base [of r alpha] assms(1,2) by simp
  then have "abs_scaling alpha (Fin r) = Fin (r powr alpha / (r powr alpha + 1))"
    by (rule abs_scaling_of_power) simp
  then show ?thesis by (simp add: scale_def)
qed

lemma abs_scaling_overflow:
  assumes "0 \<le> r" and "0 < alpha" and "overflow_bound \<le> r powr alpha"
  shows "abs_scaling alpha (Fin r) = NaN"
proof -
  have "np_power (Fin r) alpha = PInf"
    using np_power_nonneg_base [OF assms(1,2)] to_double_overflow [OF assms(3)] by simp
  then show ?thesis by (rule abs_scaling_of_infinite_power)
qed


lemma abs_scaling_PInf: "0 < alpha \<Longrightarrow> abs_scaling alpha PInf = NaN"
  by (simp add: abs_scaling_def)

lemma abs_scaling_NaN: "0 < alpha \<Longrightarrow> abs_scaling alpha NaN = NaN"
  by (simp add: abs_scaling_def)

lemma abs_scaling_alpha_zero: "abs_scaling 0 r = Fin (1 / 2)"
  by (simp add: abs_scaling_def)

lemma abs_scaling_one: "abs_scaling 1 (Fin 1) = Fin (1 / 2)"
  by (simp add: abs_scaling_def to_double_one)


lemma big_pos: "0 < big"
  unfolding big_def by simp

lemma big_in_range: "underflow_bound < big" "big < overflow_bound"
proof -
  have "1 \<le> big"
    unfolding big_def by (rule one_le_power) simp
  then show "underflow_bound < big"
    using underflow_bound_less_one by linarith
  show "big < overflow_bound"
    unfolding big_def by (rule two_power_in_range) simp
qed

lemma big_square: "big powr 2 = 2 ^ 1400"
proof -
  have "big powr 2 = big ^ 2"
    using big_pos by simp
  also have "\<dots> = 2 ^ (700 * 2)"
    unfolding big_def by (rule power_mult [symmetric])
  finally show ?thesis by simp
qed


lemma big_scaled: "abs_scaling 2 (Fin big) = NaN"
proof -
  have "overflow_bound \<le> big powr 2"
    unfolding big_square by (rule two_power_overflows) simp
  then show ?thesis using big_pos by (intro abs_scaling_overflow) simp_all
qed






lemma np_abs_Fin: "np_abs (Fin x, Fin y) = to_double (sqrt (x\<^sup>2 + y\<^sup>2))"
  by (simp add: np_abs_def creal_def cimag_def)

lemma np_abs_one: "np_abs (Fin 1, Fin 0) = Fin 1" "np_abs (Fin 0, Fin 1) = Fin 1"
  by (simp_all add: np_abs_Fin to_double_one)

lemma np_abs_big: "np_abs (Fin big, Fin 0) = Fin big"
proof -
  have "to_double big = Fin big"
    using big_in_range by (rule to_double_in_range)
  moreover have "sqrt (big\<^sup>2 + 0\<^sup>2) = big"
    using big_pos by simp
  ultimately show ?thesis by (simp only: np_abs_Fin)
qed


lemma np_abs_not_finite:
  assumes "\<not> finite_sample c"
  shows "np_abs c = PInf \<or> np_abs c = NaN"
proof (cases c)
  case (Pair a b)
  then show ?thesis using assms
    by (cases a; cases b) (simp_all add: np_abs_def creal_def cimag_def finite_sample_def)
qed

lemma abs_scaling_not_finite:
  assumes "\<not> finite_sample c" and "0 < alpha"
  shows "abs_scaling alpha (np_abs c) = NaN"
  using np_abs_not_finite [OF assms(1)] assms(2)
  by (auto simp: abs_scaling_PInf abs_scaling_NaN)

text \<open>
  C7, as the program has it. For every finite magnitude \<open>r \<ge> 0\<close> and every \<open>alpha > 0\<close>:
  where \<open>r^alpha\<close> does not overflow, the output of the scaler is a number in \<open>[0, 1]\<close>,
  and where \<open>r^alpha\<close> is moreover a normal double the output is
  \<open>r^alpha / (r^alpha + 1)\<close> (up to the rounding of doubles); where \<open>r^alpha\<close> overflows,
  and at the magnitude \<open>+\<infinity>\<close> itself, the output is \<open>NaN\<close>; the scaler maps 0 to 0; and
  with \<open>alpha = 1\<close> a sample of magnitude 1 is scaled to 0.5.
\<close>

theorem C7_scaler_values:
  assumes "0 < alpha"
  shows "(\<forall>r\<ge>0. r powr alpha < overflow_bound \<longrightarrow>
            (\<exists>s. abs_scaling alpha (Fin r) = Fin s \<and> 0 \<le> s \<and> s \<le> 1))
    \<and> (\<forall>r>0. min_normal \<le> r powr alpha \<and> r powr alpha < overflow_bound \<longrightarrow>
            abs_scaling alpha (Fin r) = Fin (scale r alpha))
    \<and> (\<forall>r\<ge>0. overflow_bound \<le> r powr alpha \<longrightarrow> abs_scaling alpha (Fin r) = NaN)
    \<and> abs_scaling alpha (Fin 0) = Fin 0
    \<and> abs_scaling alpha PInf = NaN
    \<and> (np_abs z = Fin 1 \<longrightarrow> abs_scaling 1 (np_abs z) = Fin 0.5)"
proof -
  have a: "\<forall>r\<ge>0. r powr alpha < overflow_bound \<longrightarrow>
            (\<exists>s. abs_scaling alpha (Fin r) = Fin s \<and> 0 \<le> s \<and> s \<le> 1)"
    using assms abs_scaling_in_range by blast
  have b: "\<forall>r>0. min_normal \<le> r powr alpha \<and> r powr alpha < overflow_bound \<longrightarrow>
            abs_scaling alpha (Fin r) = Fin (scale r alpha)"
    using assms abs_scaling_normal by blast
  have c: "\<forall>r\<ge>0. overflow_bound \<le> r powr alpha \<longrightarrow> abs_scaling alpha (Fin r) = NaN"
    using assms abs_scaling_overflow by blast
  have d: "abs_scaling alpha (Fin 0) = Fin 0"
    using assms by (simp add: abs_scaling_def)
  have e: "abs_scaling alpha PInf = NaN"
    using assms by (rule abs_scaling_PInf)
  have f: "np_abs z = Fin 1 \<longrightarrow> abs_scaling 1 (np_abs z) = Fin 0.5"
    by (simp add: abs_scaling_one)
  show ?thesis using a b c d e f by blast
qed

theorem C7_scaler_values_witness:
  "(0::real) < 1
    \<and> abs_scaling 1 (Fin 2) = Fin (2 / 3) \<and> abs_scaling 1 (Fin 0) = Fin 0
    \<and> abs_scaling 1 PInf = NaN
    \<and> np_abs (Fin 0, Fin 1) = Fin 1 \<and> abs_scaling 1 (np_abs (Fin 0, Fin 1)) = Fin 0.5"
proof -
  note t = C7_scaler_values [of 1 "(Fin 0, Fin 1)"]
  have "min_normal \<le> (2::real) powr 1 \<and> (2::real) powr 1 < overflow_bound"
    using min_normal_le_one two_power_in_range [of 1] by simp
  then have a: "abs_scaling 1 (Fin 2) = Fin (scale 2 1)"
    using t by simp
  have s: "scale 2 1 = 2 / 3"
    by (simp add: scale_def)
  show ?thesis using t a s np_abs_one by simp
qed

text \<open>
  The scaler at an infinite magnitude, and at the finite magnitude \<open>big = 2^700\<close> with
  \<open>alpha = 2\<close>: both results are \<open>NaN\<close>, which is neither 1 nor in \<open>[0, 1]\<close>.
\<close>

theorem C7_infinite_magnitude_counterexample:
  "np_abs (PInf, Fin 0) = PInf \<and> abs_scaling 1 (np_abs (PInf, Fin 0)) = NaN
    \<and> abs_scaling 1 (np_abs (PInf, Fin 0)) \<noteq> Fin 1
    \<and> np_abs (Fin big, Fin 0) = Fin big
    \<and> abs_scaling 2 (np_abs (Fin big, Fin 0)) = NaN
    \<and> \<not> in_unit (abs_scaling 2 (np_abs (Fin big, Fin 0)))"
proof -
  have "np_abs (PInf, Fin 0) = PInf"
    by (simp add: np_abs_def creal_def cimag_def)
  then show ?thesis
    by (simp add: abs_scaling_PInf np_abs_big big_scaled in_unit_def)
qed

subsection \<open>The branches of \<^verbatim>\<open>get_srgb1\<close>\<close>

lemma map2_same: "map2 g (map a xs) (map b xs) = map (\<lambda>x. g (a x) (b x)) xs"
  by (induction xs) auto

declare upper.simps [simp del]

lemma upper_names:
  "upper ''CAM16'' = ''CAM16''" "upper ''CIELAB'' = ''CIELAB''"
  "upper ''OKLAB'' = ''OKLAB''" "upper ''HSL'' = ''HSL''"
  by (simp_all add: upper.simps special_upper_def upper_char_def)

lemma get_srgb1_cam16:
  assumes "0 \<le> alpha" and "upper colorspace = ''CAM16''"
  shows "get_srgb1 lib z alpha colorspace =
    Inr (moveaxis (shape z)
      (map (\<lambda>c. cam16_srgb_vals lib (abs_scaling alpha (np_abs c)) (arctan2 (cimag c) (creal c)))
         (data z)))"
  using assms by (simp add: get_srgb1_def map2_same)

lemma get_srgb1_cielab:
  assumes "0 \<le> alpha" and "upper colorspace = ''CIELAB''"
  shows "get_srgb1 lib z alpha colorspace =
    Inr (moveaxis (shape z)
      (map (\<lambda>c. cielab_srgb_vals lib (abs_scaling alpha (np_abs c)) (arctan2 (cimag c) (creal c)))
         (data z)))"
  using assms by (simp add: get_srgb1_def map2_same)

lemma get_srgb1_oklab:
  assumes "0 \<le> alpha" and "upper colorspace = ''OKLAB''"
  shows "get_srgb1 lib z alpha colorspace =
    Inr (moveaxis (shape z)
      (map (\<lambda>c. oklab_srgb_vals lib (abs_scaling alpha (np_abs c)) (arctan2 (cimag c) (creal c)))
         (data z)))"
  using assms by (simp add: get_srgb1_def map2_same)

lemma get_srgb1_hsl:
  assumes "0 \<le> alpha" and "upper colorspace = ''HSL''"
  shows "get_srgb1 lib z alpha colorspace =
    Inr (moveaxis (shape z)
      (map (\<lambda>c. hsl_srgb_vals lib (abs_scaling alpha (np_abs c)) (arctan2 (cimag c) (creal c)))
         (data z)))"
  using assms by (simp add: get_srgb1_def map2_same)


lemma get_srgb1_negative:
  assumes "alpha < 0"
  shows "get_srgb1 lib z alpha colorspace = Inl (AssertionError [])"
  using assms by (simp add: get_srgb1_def)

subsection \<open>The colour-space points\<close>

lemma bicone_fl_finite:
  "bicone_fl ls r0 off (Fin s) (Fin a) = fin3 (bicone ls r0 off s a)"
  by (simp add: bicone_fl_def bicone_def fin3_def Let_def minus_fl_def)

lemma cam16_pts_bicone: "cam16_pts s a = bicone_fl 100 25.0 (0.916708 * pi) s a"
  by (simp add: cam16_pts_def bicone_fl_def Let_def)

lemma cielab_pts_bicone: "cielab_pts s a = bicone_fl 100 45.0 (0.8936868 * pi) s a"
  by (simp add: cielab_pts_def bicone_fl_def Let_def)

lemma oklab_pts_bicone: "oklab_pts s a = bicone_fl 4.64158795 0.50 (0.8936868 * pi) s a"
  by (simp add: oklab_pts_def bicone_fl_def Let_def)

lemma sample_angle_finite:
  "arctan2 (cimag (Fin x, Fin y)) (creal (Fin x, Fin y)) = Fin (atan2 y x)"
  by (simp add: creal_def cimag_def)

text \<open>
  C1. For each of the three perceptual spaces the mapper computes, for every element,
  the bicone point of the scaled magnitude and the angle with the constants of the table
  (lightness scale, \<open>r0\<close>, offset): 100, 25.0, \<open>0.916708 \<pi>\<close> for CAM16; 100, 45.0,
  \<open>0.8936868 \<pi>\<close> for CIELAB; 4.64158795, 0.50, \<open>0.8936868 \<pi>\<close> for OKLAB. On finite values
  this is the point of the real formulas. The point is what \<^verbatim>\<open>get_srgb1\<close> hands to the
  conversion chain of the space, at the scaled magnitude of the sample and the angle
  \<open>atan2(imag, real)\<close> of the sample.
\<close>

theorem C1_bicone_points:
  "cam16_pts s a = bicone_fl 100 25.0 (0.916708 * pi) s a
    \<and> cielab_pts s a = bicone_fl 100 45.0 (0.8936868 * pi) s a
    \<and> oklab_pts s a = bicone_fl 4.64158795 0.50 (0.8936868 * pi) s a
    \<and> cam16_pts (Fin t) (Fin b) = fin3 (bicone 100 25.0 (0.916708 * pi) t b)
    \<and> cielab_pts (Fin t) (Fin b) = fin3 (bicone 100 45.0 (0.8936868 * pi) t b)
    \<and> oklab_pts (Fin t) (Fin b) = fin3 (bicone 4.64158795 0.50 (0.8936868 * pi) t b)
    \<and> arctan2 (cimag (Fin x, Fin y)) (creal (Fin x, Fin y)) = Fin (atan2 y x)
    \<and> (0 \<le> alpha \<longrightarrow>
        get_srgb1 lib z alpha ''CAM16'' =
          Inr (moveaxis (shape z) (map (\<lambda>c.
            map3 clip_lower (map3 clip_upper (map3 (\<lambda>v. v * Fin 1.1)
              (srgb_to_rgb1 lib (srgb_from_xyz100 lib (cam16_to_xyz100 lib
                (cam16_pts (abs_scaling alpha (np_abs c)) (arctan2 (cimag c) (creal c))))))))) (data z)))
        \<and> get_srgb1 lib z alpha ''CIELAB'' =
          Inr (moveaxis (shape z) (map (\<lambda>c.
            map3 clip_lower (map3 clip_upper
              (srgb_to_rgb1 lib (srgb_from_xyz100 lib (cielab_to_xyz100 lib
                (cielab_pts (abs_scaling alpha (np_abs c)) (arctan2 (cimag c) (creal c)))))))) (data z)))
        \<and> get_srgb1 lib z alpha ''OKLAB'' =
          Inr (moveaxis (shape z) (map (\<lambda>c.
            map3 clip_lower (map3 clip_upper
              (srgb_to_rgb1 lib (srgb_from_xyz100 lib (oklab_to_xyz100 lib
                (oklab_pts (abs_scaling alpha (np_abs c)) (arctan2 (cimag c) (creal c)))))))) (data z))))"
proof -
  have g: "0 \<le> alpha \<longrightarrow>
        get_srgb1 lib z alpha ''CAM16'' =
          Inr (moveaxis (shape z) (map (\<lambda>c.
            map3 clip_lower (map3 clip_upper (map3 (\<lambda>v. v * Fin 1.1)
              (srgb_to_rgb1 lib (srgb_from_xyz100 lib (cam16_to_xyz100 lib
                (cam16_pts (abs_scaling alpha (np_abs c)) (arctan2 (cimag c) (creal c))))))))) (data z)))
        \<and> get_srgb1 lib z alpha ''CIELAB'' =
          Inr (moveaxis (shape z) (map (\<lambda>c.
            map3 clip_lower (map3 clip_upper
              (srgb_to_rgb1 lib (srgb_from_xyz100 lib (cielab_to_xyz100 lib
                (cielab_pts (abs_scaling alpha (np_abs c)) (arctan2 (cimag c) (creal c)))))))) (data z)))
        \<and> get_srgb1 lib z alpha ''OKLAB'' =
          Inr (moveaxis (shape z) (map (\<lambda>c.
            map3 clip_lower (map3 clip_upper
              (srgb_to_rgb1 lib (srgb_from_xyz100 lib (oklab_to_xyz100 lib
                (oklab_pts (abs_scaling alpha (np_abs c)) (arctan2 (cimag c) (creal c)))))))) (data z)))"
    by (simp add: get_srgb1_cam16 get_srgb1_cielab get_srgb1_oklab upper_names
        cam16_srgb_vals_def cielab_srgb_vals_def oklab_srgb_vals_def Let_def)
  have f: "cam16_pts (Fin t) (Fin b) = fin3 (bicone 100 25.0 (0.916708 * pi) t b)"
    "cielab_pts (Fin t) (Fin b) = fin3 (bicone 100 45.0 (0.8936868 * pi) t b)"
    "oklab_pts (Fin t) (Fin b) = fin3 (bicone 4.64158795 0.50 (0.8936868 * pi) t b)"
    by (simp_all only: cam16_pts_bicone cielab_pts_bicone oklab_pts_bicone bicone_fl_finite)
  show ?thesis
    using g f cam16_pts_bicone [of s a] cielab_pts_bicone [of s a] oklab_pts_bicone [of s a]
      sample_angle_finite [of x y]
    by blast
qed

theorem C1_bicone_points_witness:
  "cam16_pts (Fin (1 / 2)) (Fin 0) =
      (Fin 50, Fin (25 * cos (0.916708 * pi)), Fin (25 * sin (0.916708 * pi)))
    \<and> oklab_pts (Fin 1) (Fin 0) = (Fin 4.64158795, Fin 0, Fin 0)
    \<and> (0::real) \<le> 1
    \<and> (\<exists>img. get_srgb1 gray_lib one_sample 1 ''CIELAB'' = Inr img)"
proof -
  note t = C1_bicone_points [of "Fin 1" "Fin 0" "1 / 2" 0 0 1 1 gray_lib one_sample]
  have a: "cam16_pts (Fin (1 / 2)) (Fin 0) = fin3 (bicone 100 25.0 (0.916708 * pi) (1 / 2) 0)"
    using t by blast
  have b: "oklab_pts (Fin 1) (Fin 0) = bicone_fl 4.64158795 0.50 (0.8936868 * pi) (Fin 1) (Fin 0)"
    using t by blast
  have c: "\<exists>img. get_srgb1 gray_lib one_sample 1 ''CIELAB'' = Inr img"
    using t by simp
  have a': "fin3 (bicone 100 25.0 (0.916708 * pi) (1 / 2) 0) =
      (Fin 50, Fin (25 * cos (0.916708 * pi)), Fin (25 * sin (0.916708 * pi)))"
    by (simp add: bicone_def fin3_def)
  have b': "bicone_fl 4.64158795 0.50 (0.8936868 * pi) (Fin 1) (Fin 0) = (Fin 4.64158795, Fin 0, Fin 0)"
    by (simp add: bicone_fl_def minus_fl_def Let_def)
  show ?thesis using a b c a' b' by simp
qed

subsection \<open>Post-processing of the decoded values\<close>

lemma one_sample_scaled: "abs_scaling 1 (np_abs (Fin 1, Fin 0)) = Fin (1 / 2)"
  by (simp only: np_abs_one abs_scaling_one)

lemma one_sample_angle: "arctan2 (cimag (Fin 1, Fin 0)) (creal (Fin 1, Fin 0)) = Fin 0"
  by (simp add: creal_def cimag_def atan2_def)

text \<open>
  C5, as the program has it. Only the CAM16 branch multiplies the decoded values by 1.1
  before clipping them to \<open>[0, 1]\<close>; the CIELAB and OKLAB branches clip the decoded values
  as they are, and the HSL branch replaces the values below 0 and applies no multiplier.
\<close>

theorem C5_post_multiplier:
  "cam16_srgb_vals lib s a =
      multiplied_and_clipped
        (srgb_to_rgb1 lib (srgb_from_xyz100 lib (cam16_to_xyz100 lib (cam16_pts s a))))
    \<and> cielab_srgb_vals lib s a =
      map3 clip_lower (map3 clip_upper
        (srgb_to_rgb1 lib (srgb_from_xyz100 lib (cielab_to_xyz100 lib (cielab_pts s a)))))
    \<and> oklab_srgb_vals lib s a =
      map3 clip_lower (map3 clip_upper
        (srgb_to_rgb1 lib (srgb_from_xyz100 lib (oklab_to_xyz100 lib (oklab_pts s a)))))
    \<and> hsl_srgb_vals lib s a = map3 clip_lower (hsl_to_rgb1 lib (hsl_vals s a))
    \<and> (0 \<le> alpha \<longrightarrow>
        get_srgb1 lib z alpha ''CAM16'' =
          Inr (moveaxis (shape z)
            (map (\<lambda>c. cam16_srgb_vals lib (abs_scaling alpha (np_abs c))
                         (arctan2 (cimag c) (creal c))) (data z)))
        \<and> get_srgb1 lib z alpha ''CIELAB'' =
          Inr (moveaxis (shape z)
            (map (\<lambda>c. cielab_srgb_vals lib (abs_scaling alpha (np_abs c))
                         (arctan2 (cimag c) (creal c))) (data z)))
        \<and> get_srgb1 lib z alpha ''OKLAB'' =
          Inr (moveaxis (shape z)
            (map (\<lambda>c. oklab_srgb_vals lib (abs_scaling alpha (np_abs c))
                         (arctan2 (cimag c) (creal c))) (data z)))
        \<and> get_srgb1 lib z alpha ''HSL'' =
          Inr (moveaxis (shape z)
            (map (\<lambda>c. hsl_srgb_vals lib (abs_scaling alpha (np_abs c))
                         (arctan2 (cimag c) (creal c))) (data z))))"
  by (simp add: cam16_srgb_vals_def cielab_srgb_vals_def oklab_srgb_vals_def hsl_srgb_vals_def
      multiplied_and_clipped_def Let_def get_srgb1_cam16 get_srgb1_cielab get_srgb1_oklab
      get_srgb1_hsl upper_names)

theorem C5_post_multiplier_witness:
  "(0::real) \<le> 1
    \<and> get_srgb1 gray_lib one_sample 1 ''CAM16'' =
        Inr \<lparr>shape = [1, 3], data = [Fin 0.55, Fin 0.55, Fin 0.55]\<rparr>
    \<and> get_srgb1 gray_lib one_sample 1 ''CIELAB'' =
        Inr \<lparr>shape = [1, 3], data = [Fin 0.5, Fin 0.5, Fin 0.5]\<rparr>"
proof -
  note t = C5_post_multiplier [of gray_lib "Fin (1 / 2)" "Fin 0" 1 one_sample]
  have a: "cam16_srgb_vals gray_lib (Fin (1 / 2)) (Fin 0) = (Fin 0.55, Fin 0.55, Fin 0.55)"
    by (simp add: cam16_srgb_vals_def cam16_pts_def gray_lib_def Let_def map3_def
        clip_lower_def clip_upper_def minus_fl_def)
  have b: "cielab_srgb_vals gray_lib (Fin (1 / 2)) (Fin 0) = (Fin 0.5, Fin 0.5, Fin 0.5)"
    by (simp add: cielab_srgb_vals_def cielab_pts_def gray_lib_def Let_def map3_def
        clip_lower_def clip_upper_def minus_fl_def)
  have "get_srgb1 gray_lib one_sample 1 ''CAM16'' =
          Inr (moveaxis (shape one_sample)
            (map (\<lambda>c. cam16_srgb_vals gray_lib (abs_scaling 1 (np_abs c))
                         (arctan2 (cimag c) (creal c))) (data one_sample)))"
    using t by simp
  then have c: "get_srgb1 gray_lib one_sample 1 ''CAM16'' =
        Inr \<lparr>shape = [1, 3], data = [Fin 0.55, Fin 0.55, Fin 0.55]\<rparr>"
    by (simp add: one_sample_def one_sample_scaled one_sample_angle a moveaxis_def)
  have "get_srgb1 gray_lib one_sample 1 ''CIELAB'' =
          Inr (moveaxis (shape one_sample)
            (map (\<lambda>c. cielab_srgb_vals gray_lib (abs_scaling 1 (np_abs c))
                         (arctan2 (cimag c) (creal c))) (data one_sample)))"
    using t by simp
  then have d: "get_srgb1 gray_lib one_sample 1 ''CIELAB'' =
        Inr \<lparr>shape = [1, 3], data = [Fin 0.5, Fin 0.5, Fin 0.5]\<rparr>"
    by (simp add: one_sample_def one_sample_scaled one_sample_angle b moveaxis_def)
  show ?thesis using c d by simp
qed

text \<open>
  The CIELAB branch on the sample \<open>1 + 0i\<close>, with a library that decodes to the gray of
  the lightness: the program returns 0.5 in each channel, where a multiplier of 1.1
  would give 0.55.
\<close>

theorem C5_cielab_counterexample:
  "get_srgb1 gray_lib one_sample 1 ''CIELAB'' =
      Inr \<lparr>shape = [1, 3], data = [Fin 0.5, Fin 0.5, Fin 0.5]\<rparr>
    \<and> multiplied_and_clipped
        (srgb_to_rgb1 gray_lib (srgb_from_xyz100 gray_lib (cielab_to_xyz100 gray_lib
          (cielab_pts (abs_scaling 1 (np_abs (Fin 1, Fin 0)))
             (arctan2 (cimag (Fin 1, Fin 0)) (creal (Fin 1, Fin 0)))))))
      = (Fin 0.55, Fin 0.55, Fin 0.55)"
  by (simp add: get_srgb1_cielab upper_names one_sample_def one_sample_scaled one_sample_angle
      cielab_srgb_vals_def cielab_pts_def gray_lib_def Let_def moveaxis_def map3_def
      clip_lower_def clip_upper_def multiplied_and_clipped_def minus_fl_def)

subsection \<open>The HSL branch\<close>

lemma hue_arg: "Fin a / Fin (2 * pi) * Fin 360 + Fin 120 = Fin (a / (2 * pi) * 360 + 120)"
  by simp

lemma np_mod_360: "np_mod (Fin x) 360 = Fin (x - 360 * of_int \<lfloor>x / 360\<rfloor>)"
  by (simp only: np_mod.simps mult.commute) simp

lemma hsl_vals_finite: "hsl_vals s (Fin a) = (Fin (hue a), Fin 1, s)"
  unfolding hsl_vals_def hue_def Let_def hue_arg np_mod_360 by (rule refl)

lemma hue_range: "0 \<le> hue a \<and> hue a < 360"
proof -
  define x where "x = a / (2 * pi) * 360 + 120"
  define k where "k = real_of_int \<lfloor>x / 360\<rfloor>"
  have "k \<le> x / 360" unfolding k_def by (rule of_int_floor_le)
  moreover have "x / 360 < k + 1" unfolding k_def by linarith
  ultimately have "0 \<le> x - 360 * k \<and> x - 360 * k < 360"
    by (simp add: field_simps)
  then have "0 \<le> x - 360 * of_int \<lfloor>x / 360\<rfloor> \<and> x - 360 * of_int \<lfloor>x / 360\<rfloor> < 360"
    by (simp add: k_def)
  then show ?thesis by (simp add: hue_def x_def Let_def)
qed

lemma hue_congruent: "\<exists>k::int. a / (2 * pi) * 360 + 120 = hue a + 360 * of_int k"
  by (simp add: hue_def Let_def)

lemma hue_0: "hue 0 = 120"
  by (simp add: hue_def)

lemma hue_pi: "hue pi = 300"
  by (simp add: hue_def)

lemma minus_one_angle: "arctan2 (cimag (Fin (- 1), Fin 0)) (creal (Fin (- 1), Fin 0)) = Fin pi"
  by (simp add: creal_def cimag_def atan2_def)

text \<open>
  C6. In the HSL branch the triple handed to the HSL conversion has, for every element,
  saturation 1 and the scaled magnitude as lightness; its hue, for a finite angle, is
  \<open>mod(angle / (2\<pi>) \<sqdot> 360 + 120, 360)\<close>: the number in \<open>[0, 360)\<close> that differs from
  \<open>angle / (2\<pi>) \<sqdot> 360 + 120\<close> by a multiple of 360. The sample 1 (angle 0) has hue 120
  and the sample \<open>-1\<close> (angle \<open>\<pi>\<close>) has hue 300.
\<close>

theorem C6_hsl_branch:
  "hsl_vals s (Fin a) = (Fin (hue a), Fin 1, s)
    \<and> 0 \<le> hue a \<and> hue a < 360
    \<and> (\<exists>k::int. a / (2 * pi) * 360 + 120 = hue a + 360 * of_int k)
    \<and> fst (snd (hsl_vals s b)) = Fin 1 \<and> snd (snd (hsl_vals s b)) = s
    \<and> hsl_vals s (arctan2 (cimag (Fin 1, Fin 0)) (creal (Fin 1, Fin 0))) = (Fin 120, Fin 1, s)
    \<and> hsl_vals s (arctan2 (cimag (Fin (- 1), Fin 0)) (creal (Fin (- 1), Fin 0)))
        = (Fin 300, Fin 1, s)
    \<and> (0 \<le> alpha \<longrightarrow>
        get_srgb1 lib z alpha ''HSL'' =
          Inr (moveaxis (shape z) (map (\<lambda>c.
            map3 clip_lower (hsl_to_rgb1 lib
              (hsl_vals (abs_scaling alpha (np_abs c)) (arctan2 (cimag c) (creal c))))) (data z))))"
proof -
  have g: "0 \<le> alpha \<longrightarrow>
        get_srgb1 lib z alpha ''HSL'' =
          Inr (moveaxis (shape z) (map (\<lambda>c.
            map3 clip_lower (hsl_to_rgb1 lib
              (hsl_vals (abs_scaling alpha (np_abs c)) (arctan2 (cimag c) (creal c))))) (data z)))"
    by (simp add: get_srgb1_hsl upper_names hsl_srgb_vals_def Let_def)
  have p: "fst (snd (hsl_vals s b)) = Fin 1 \<and> snd (snd (hsl_vals s b)) = s"
    by (simp add: hsl_vals_def Let_def)
  have o: "hsl_vals s (arctan2 (cimag (Fin 1, Fin 0)) (creal (Fin 1, Fin 0))) = (Fin 120, Fin 1, s)"
    by (simp only: one_sample_angle hsl_vals_finite hue_0)
  have m: "hsl_vals s (arctan2 (cimag (Fin (- 1), Fin 0)) (creal (Fin (- 1), Fin 0)))
        = (Fin 300, Fin 1, s)"
    by (simp only: minus_one_angle hsl_vals_finite hue_pi)
  show ?thesis
    using g p o m hsl_vals_finite [of s a] hue_range [of a] hue_congruent [of a] by blast
qed

theorem C6_hsl_branch_witness:
  "hsl_vals (Fin (1 / 2)) (Fin (pi / 2)) = (Fin 210, Fin 1, Fin (1 / 2))
    \<and> (0::real) \<le> 1
    \<and> get_srgb1 gray_lib one_sample 1 ''HSL'' =
        Inr \<lparr>shape = [1, 3], data = [Fin (1 / 2), Fin (1 / 2), Fin (1 / 2)]\<rparr>"
proof -
  note t = C6_hsl_branch [of "Fin (1 / 2)" "pi / 2" NaN 1 gray_lib one_sample]
  have h: "hue (pi / 2) = 210"
    by (simp add: hue_def)
  have a: "hsl_vals (Fin (1 / 2)) (Fin (pi / 2)) = (Fin (hue (pi / 2)), Fin 1, Fin (1 / 2))"
    using t by blast
  have "get_srgb1 gray_lib one_sample 1 ''HSL'' =
          Inr (moveaxis (shape one_sample) (map (\<lambda>c.
            map3 clip_lower (hsl_to_rgb1 gray_lib
              (hsl_vals (abs_scaling 1 (np_abs c)) (arctan2 (cimag c) (creal c))))) (data one_sample)))"
    using t by simp
  then have b: "get_srgb1 gray_lib one_sample 1 ''HSL'' =
        Inr \<lparr>shape = [1, 3], data = [Fin (1 / 2), Fin (1 / 2), Fin (1 / 2)]\<rparr>"
    by (simp add: one_sample_def one_sample_scaled one_sample_angle hsl_vals_finite gray_lib_def
        moveaxis_def map3_def clip_lower_def)
  show ?thesis using a b h by simp
qed

subsection \<open>The selector\<close>

lemma of_char_upper_char:
  fixes c :: char
  defines "m \<equiv> (of_char c :: nat)"
  shows "(of_char (upper_char c) :: nat) = (if 97 \<le> m \<and> m \<le> 122 then m - 32 else m)"
proof -
  have "m < 256" unfolding m_def by (rule nat_of_char_less_256)
  then have "(m - 32) mod 256 = m - 32" by simp
  then show ?thesis by (simp add: upper_char_def Let_def m_def)
qed

lemma of_char_lower_char:
  fixes c :: char
  defines "m \<equiv> (of_char c :: nat)"
  shows "(of_char (lower_char c) :: nat) = (if 65 \<le> m \<and> m \<le> 90 then m + 32 else m)"
proof -
  have "m \<le> 90 \<Longrightarrow> (m + 32) mod 256 = m + 32" by simp
  then show ?thesis by (simp add: lower_char_def Let_def m_def)
qed

lemma upper_char_eq_iff:
  "upper_char c = upper_char d \<longleftrightarrow> lower_char c = lower_char d"
proof -
  define m where "m = (of_char c :: nat)"
  define n where "n = (of_char d :: nat)"
  have "upper_char c = upper_char d \<longleftrightarrow>
      (of_char (upper_char c) :: nat) = of_char (upper_char d)"
    by simp
  also have "\<dots> \<longleftrightarrow> (if 97 \<le> m \<and> m \<le> 122 then m - 32 else m)
      = (if 97 \<le> n \<and> n \<le> 122 then n - 32 else n)"
    by (simp only: of_char_upper_char m_def n_def)
  also have "\<dots> \<longleftrightarrow> (if 65 \<le> m \<and> m \<le> 90 then m + 32 else m)
      = (if 65 \<le> n \<and> n \<le> 90 then n + 32 else n)"
    by (auto split: if_splits)
  also have "\<dots> \<longleftrightarrow> (of_char (lower_char c) :: nat) = of_char (lower_char d)"
    by (simp only: of_char_lower_char m_def n_def)
  also have "\<dots> \<longleftrightarrow> lower_char c = lower_char d"
    by simp
  finally show ?thesis .
qed

lemma map_upper_char_eq_iff:
  "map upper_char s = map upper_char t \<longleftrightarrow> ascii_fold s = ascii_fold t"
proof (induction s arbitrary: t)
  case Nil
  then show ?case by (auto simp: ascii_fold_def)
next
  case (Cons c s)
  then show ?case
    by (cases t) (auto simp: ascii_fold_def upper_char_eq_iff)
qed

text \<open>A string that starts with an ASCII character does not start with a special one.\<close>

lemma special_upper_ascii:
  assumes "(of_char c :: nat) < 128"
  shows "special_upper (c # cs) = None"
proof -
  have "c \<noteq> CHR 0xC3" "c \<noteq> CHR 0xC4" "c \<noteq> CHR 0xC5" "c \<noteq> CHR 0xEF"
    using assms by auto
  then show ?thesis by (simp add: special_upper_def)
qed

lemma upper_ascii:
  assumes "ascii s"
  shows "upper s = map upper_char s"
  using assms
proof (induction s)
  case Nil
  show ?case by (simp add: upper.simps)
next
  case (Cons c s)
  then have "(of_char c :: nat) < 128" and "ascii s"
    by (simp_all add: ascii_def)
  then show ?case
    using Cons.IH by (simp add: upper.simps special_upper_ascii)
qed

lemma same_ignoring_case_ascii:
  assumes "ascii s" and "ascii t"
  shows "same_ignoring_case s t \<longleftrightarrow> ascii_fold s = ascii_fold t"
  unfolding same_ignoring_case_def upper_ascii [OF assms(1)] upper_ascii [OF assms(2)]
  by (rule map_upper_char_eq_iff)

lemma names_ascii: "ascii ''CAM16''" "ascii ''CIELAB''" "ascii ''OKLAB''" "ascii ''HSL''"
  by (simp_all add: ascii_def)

lemma names_folded:
  "ascii_fold ''CAM16'' = ''cam16''" "ascii_fold ''CIELAB'' = ''cielab''"
  "ascii_fold ''OKLAB'' = ''oklab''" "ascii_fold ''HSL'' = ''hsl''"
  by (simp_all add: ascii_fold_def lower_char_def char_of_def bit_iff_odd)

lemma upper_is_name:
  "upper s = ''CAM16'' \<longleftrightarrow> same_ignoring_case s ''CAM16''"
  "upper s = ''CIELAB'' \<longleftrightarrow> same_ignoring_case s ''CIELAB''"
  "upper s = ''OKLAB'' \<longleftrightarrow> same_ignoring_case s ''OKLAB''"
  "upper s = ''HSL'' \<longleftrightarrow> same_ignoring_case s ''HSL''"
  by (simp_all only: same_ignoring_case_def upper_names)

lemma get_srgb1_returns_iff:
  assumes "0 \<le> alpha"
  shows "(\<exists>img. get_srgb1 lib z alpha colorspace = Inr img) \<longleftrightarrow> recognized colorspace"
  using assms by (auto simp: get_srgb1_def recognized_def upper_is_name [symmetric] Let_def)





lemma cam16_folded: "ascii ''cam16''" "ascii_fold ''cam16'' = ''cam16''"
  by (simp_all add: ascii_def ascii_fold_def lower_char_def)



subsection \<open>The image array\<close>





lemma pixel_moveaxis:
  assumes "i < length vals"
  shows "pixel (moveaxis shp vals) i = vals ! i"
  using assms
proof (induction vals arbitrary: i)
  case Nil
  then show ?case by simp
next
  case (Cons p vals)
  obtain r g b where p: "p = (r, g, b)" by (cases p)
  show ?case
  proof (cases i)
    case 0
    then show ?thesis by (simp add: pixel_def moveaxis_def p)
  next
    case (Suc j)
    have s: "3 * Suc j = Suc (Suc (Suc (3 * j)))" by simp
    have "j < length vals" using Cons.prems Suc by simp
    then have "pixel (moveaxis shp vals) j = vals ! j" by (rule Cons.IH)
    then show ?thesis
      unfolding Suc s by (simp add: pixel_def moveaxis_def p)
  qed
qed

text \<open>The three values of an element of the image, for each branch.\<close>

lemma get_srgb1_pixel:
  assumes "0 \<le> alpha" and "i < length (data z)"
  shows "\<exists>img. get_srgb1 lib z alpha ''CAM16'' = Inr img
      \<and> pixel img i = cam16_srgb_vals lib (abs_scaling alpha (np_abs (data z ! i)))
          (arctan2 (cimag (data z ! i)) (creal (data z ! i)))"
    and "\<exists>img. get_srgb1 lib z alpha ''CIELAB'' = Inr img
      \<and> pixel img i = cielab_srgb_vals lib (abs_scaling alpha (np_abs (data z ! i)))
          (arctan2 (cimag (data z ! i)) (creal (data z ! i)))"
    and "\<exists>img. get_srgb1 lib z alpha ''OKLAB'' = Inr img
      \<and> pixel img i = oklab_srgb_vals lib (abs_scaling alpha (np_abs (data z ! i)))
          (arctan2 (cimag (data z ! i)) (creal (data z ! i)))"
    and "\<exists>img. get_srgb1 lib z alpha ''HSL'' = Inr img
      \<and> pixel img i = hsl_srgb_vals lib (abs_scaling alpha (np_abs (data z ! i)))
          (arctan2 (cimag (data z ! i)) (creal (data z ! i)))"
  using assms
  by (simp_all add: get_srgb1_cam16 get_srgb1_cielab get_srgb1_oklab get_srgb1_hsl upper_names
      pixel_moveaxis)

subsection \<open>Failures and samples that are not finite\<close>

lemma get_srgb1_invalid_iff:
  "get_srgb1 lib z alpha colorspace = Inl InvalidParameter \<longleftrightarrow> alpha < 0"
  by (auto simp: get_srgb1_def InvalidParameter_def illegal_colorspace_def Let_def)

lemma get_srgb1_raises_iff:
  "isl (get_srgb1 lib z alpha colorspace) \<longleftrightarrow> alpha < 0 \<or> \<not> recognized colorspace"
proof (cases "alpha < 0")
  case True
  then show ?thesis by (simp add: get_srgb1_negative)
next
  case False
  then have a: "0 \<le> alpha" by simp
  have "isl (get_srgb1 lib z alpha colorspace) \<longleftrightarrow>
      \<not> (\<exists>img. get_srgb1 lib z alpha colorspace = Inr img)"
    by (cases "get_srgb1 lib z alpha colorspace") auto
  then show ?thesis using False get_srgb1_returns_iff [OF a, of lib z colorspace] by simp
qed

lemma arctan2_NaN:
  assumes "creal c = NaN \<or> cimag c = NaN"
  shows "arctan2 (cimag c) (creal c) = NaN"
  using assms by (cases "cimag c"; cases "creal c") auto

lemma pts_NaN_scaled:
  "cam16_pts NaN a = (NaN, NaN, NaN)" "cielab_pts NaN a = (NaN, NaN, NaN)"
  "oklab_pts NaN a = (NaN, NaN, NaN)" "snd (snd (hsl_vals NaN a)) = NaN"
  by (simp_all add: cam16_pts_def cielab_pts_def oklab_pts_def hsl_vals_def Let_def minus_fl_def)

lemma times_NaN: "x * NaN = NaN"
  by (cases x) auto

lemma pts_NaN_angle:
  "cam16_pts s NaN = (Fin 100 * s, NaN, NaN)" "cielab_pts s NaN = (Fin 100 * s, NaN, NaN)"
  "oklab_pts s NaN = (Fin 4.64158795 * s, NaN, NaN)" "hsl_vals s NaN = (NaN, Fin 1, s)"
  by (simp_all add: cam16_pts_def cielab_pts_def oklab_pts_def hsl_vals_def Let_def times_NaN)

lemma clipping_keeps_NaN:
  "multiplied_and_clipped (NaN, NaN, NaN) = (NaN, NaN, NaN)"
  "map3 clip_lower (map3 clip_upper (NaN, NaN, NaN)) = (NaN, NaN, NaN)"
  "map3 clip_lower (NaN, NaN, NaN) = (NaN, NaN, NaN)"
  by (simp_all add: multiplied_and_clipped_def map3_def clip_lower_def clip_upper_def)

text \<open>
  The element of the image for a sample that is not finite, with \<open>alpha > 0\<close>: the
  conversion chain of a perceptual space receives the point \<open>(NaN, NaN, NaN)\<close>, the HSL
  conversion a \<open>NaN\<close> lightness.
\<close>

lemma not_finite_pixel:
  assumes "0 < alpha" and "i < length (data z)" and "\<not> finite_sample (data z ! i)"
  shows "\<exists>img. get_srgb1 lib z alpha ''CAM16'' = Inr img
      \<and> pixel img i = multiplied_and_clipped
          (srgb_to_rgb1 lib (srgb_from_xyz100 lib (cam16_to_xyz100 lib (NaN, NaN, NaN))))"
    and "\<exists>img. get_srgb1 lib z alpha ''CIELAB'' = Inr img
      \<and> pixel img i = map3 clip_lower (map3 clip_upper
          (srgb_to_rgb1 lib (srgb_from_xyz100 lib (cielab_to_xyz100 lib (NaN, NaN, NaN)))))"
    and "\<exists>img. get_srgb1 lib z alpha ''OKLAB'' = Inr img
      \<and> pixel img i = map3 clip_lower (map3 clip_upper
          (srgb_to_rgb1 lib (srgb_from_xyz100 lib (oklab_to_xyz100 lib (NaN, NaN, NaN)))))"
    and "\<exists>img. get_srgb1 lib z alpha ''HSL'' = Inr img
      \<and> pixel img i = map3 clip_lower (hsl_to_rgb1 lib
          (hsl_vals NaN (arctan2 (cimag (data z ! i)) (creal (data z ! i)))))"
proof -
  have a: "0 \<le> alpha" using assms(1) by simp
  note s = abs_scaling_not_finite [OF assms(3,1)]
  show "\<exists>img. get_srgb1 lib z alpha ''CAM16'' = Inr img
      \<and> pixel img i = multiplied_and_clipped
          (srgb_to_rgb1 lib (srgb_from_xyz100 lib (cam16_to_xyz100 lib (NaN, NaN, NaN))))"
    using get_srgb1_pixel(1) [OF a assms(2), of lib]
    by (simp add: s cam16_srgb_vals_def multiplied_and_clipped_def pts_NaN_scaled)
  show "\<exists>img. get_srgb1 lib z alpha ''CIELAB'' = Inr img
      \<and> pixel img i = map3 clip_lower (map3 clip_upper
          (srgb_to_rgb1 lib (srgb_from_xyz100 lib (cielab_to_xyz100 lib (NaN, NaN, NaN)))))"
    using get_srgb1_pixel(2) [OF a assms(2), of lib]
    by (simp add: s cielab_srgb_vals_def pts_NaN_scaled)
  show "\<exists>img. get_srgb1 lib z alpha ''OKLAB'' = Inr img
      \<and> pixel img i = map3 clip_lower (map3 clip_upper
          (srgb_to_rgb1 lib (srgb_from_xyz100 lib (oklab_to_xyz100 lib (NaN, NaN, NaN)))))"
    using get_srgb1_pixel(3) [OF a assms(2), of lib]
    by (simp add: s oklab_srgb_vals_def pts_NaN_scaled)
  show "\<exists>img. get_srgb1 lib z alpha ''HSL'' = Inr img
      \<and> pixel img i = map3 clip_lower (hsl_to_rgb1 lib
          (hsl_vals NaN (arctan2 (cimag (data z ! i)) (creal (data z ! i)))))"
    using get_srgb1_pixel(4) [OF a assms(2), of lib]
    by (simp add: s hsl_srgb_vals_def)
qed

text \<open>
  The element of the image for a sample with a \<open>NaN\<close> part, for every accepted \<open>alpha\<close>:
  the chroma axes the conversion chain receives are \<open>NaN\<close>, and so is the hue of the HSL
  conversion.
\<close>

lemma nan_part_pixel:
  assumes "0 \<le> alpha" and "i < length (data z)"
    and "creal (data z ! i) = NaN \<or> cimag (data z ! i) = NaN"
  shows "\<exists>img. get_srgb1 lib z alpha ''CAM16'' = Inr img
      \<and> pixel img i = multiplied_and_clipped
          (srgb_to_rgb1 lib (srgb_from_xyz100 lib (cam16_to_xyz100 lib
            (Fin 100 * abs_scaling alpha (np_abs (data z ! i)), NaN, NaN))))"
    and "\<exists>img. get_srgb1 lib z alpha ''CIELAB'' = Inr img
      \<and> pixel img i = map3 clip_lower (map3 clip_upper
          (srgb_to_rgb1 lib (srgb_from_xyz100 lib (cielab_to_xyz100 lib
            (Fin 100 * abs_scaling alpha (np_abs (data z ! i)), NaN, NaN)))))"
    and "\<exists>img. get_srgb1 lib z alpha ''OKLAB'' = Inr img
      \<and> pixel img i = map3 clip_lower (map3 clip_upper
          (srgb_to_rgb1 lib (srgb_from_xyz100 lib (oklab_to_xyz100 lib
            (Fin 4.64158795 * abs_scaling alpha (np_abs (data z ! i)), NaN, NaN)))))"
    and "\<exists>img. get_srgb1 lib z alpha ''HSL'' = Inr img
      \<and> pixel img i = map3 clip_lower (hsl_to_rgb1 lib
          (NaN, Fin 1, abs_scaling alpha (np_abs (data z ! i))))"
proof -
  note n = arctan2_NaN [OF assms(3)]
  show "\<exists>img. get_srgb1 lib z alpha ''CAM16'' = Inr img
      \<and> pixel img i = multiplied_and_clipped
          (srgb_to_rgb1 lib (srgb_from_xyz100 lib (cam16_to_xyz100 lib
            (Fin 100 * abs_scaling alpha (np_abs (data z ! i)), NaN, NaN))))"
    using get_srgb1_pixel(1) [OF assms(1,2), of lib]
    by (simp add: n cam16_srgb_vals_def multiplied_and_clipped_def pts_NaN_angle)
  show "\<exists>img. get_srgb1 lib z alpha ''CIELAB'' = Inr img
      \<and> pixel img i = map3 clip_lower (map3 clip_upper
          (srgb_to_rgb1 lib (srgb_from_xyz100 lib (cielab_to_xyz100 lib
            (Fin 100 * abs_scaling alpha (np_abs (data z ! i)), NaN, NaN)))))"
    using get_srgb1_pixel(2) [OF assms(1,2), of lib]
    by (simp add: n cielab_srgb_vals_def pts_NaN_angle)
  show "\<exists>img. get_srgb1 lib z alpha ''OKLAB'' = Inr img
      \<and> pixel img i = map3 clip_lower (map3 clip_upper
          (srgb_to_rgb1 lib (srgb_from_xyz100 lib (oklab_to_xyz100 lib
            (Fin 4.64158795 * abs_scaling alpha (np_abs (data z ! i)), NaN, NaN)))))"
    using get_srgb1_pixel(3) [OF assms(1,2), of lib]
    by (simp add: n oklab_srgb_vals_def pts_NaN_angle)
  show "\<exists>img. get_srgb1 lib z alpha ''HSL'' = Inr img
      \<and> pixel img i = map3 clip_lower (hsl_to_rgb1 lib
          (NaN, Fin 1, abs_scaling alpha (np_abs (data z ! i))))"
    using get_srgb1_pixel(4) [OF assms(1,2), of lib]
    by (simp add: n hsl_srgb_vals_def pts_NaN_angle)
qed

text \<open>
  C9, as the program has it. \<^verbatim>\<open>get_srgb1\<close> fails with \<open>InvalidParameter\<close> (the
  \<^verbatim>\<open>AssertionError\<close> of \<^verbatim>\<open>assert alpha >= 0\<close>) exactly when \<open>alpha\<close> is negative. Whether
  it raises at all is decided by \<open>alpha\<close> and the selector alone, whatever the samples
  are, \<open>NaN\<close> and infinities included. With \<open>alpha > 0\<close>, the element of the returned
  image for a sample with a \<open>NaN\<close> or infinite part is what the post-processing of the
  branch makes of the library's conversion of the point \<open>(NaN, NaN, NaN)\<close> (of a triple
  with a \<open>NaN\<close> lightness in HSL). For every accepted \<open>alpha\<close>, the element for a sample
  with a \<open>NaN\<close> part comes from a point with \<open>NaN\<close> chroma axes (a \<open>NaN\<close> hue in HSL).
  The multiplier and the clipping leave \<open>NaN\<close> in place. With \<open>alpha = 0\<close> the scaled
  magnitude of every sample is 0.5, also of one that is not finite.
\<close>

theorem C9_failures_and_propagation:
  "(get_srgb1 lib z alpha colorspace = Inl InvalidParameter \<longleftrightarrow> alpha < 0)
    \<and> (isl (get_srgb1 lib z alpha colorspace) \<longleftrightarrow> alpha < 0 \<or> \<not> recognized colorspace)
    \<and> (0 < alpha \<and> i < length (data z) \<and> \<not> finite_sample (data z ! i) \<longrightarrow>
        (\<exists>img. get_srgb1 lib z alpha ''CAM16'' = Inr img
          \<and> pixel img i = multiplied_and_clipped
              (srgb_to_rgb1 lib (srgb_from_xyz100 lib (cam16_to_xyz100 lib (NaN, NaN, NaN)))))
        \<and> (\<exists>img. get_srgb1 lib z alpha ''CIELAB'' = Inr img
          \<and> pixel img i = map3 clip_lower (map3 clip_upper
              (srgb_to_rgb1 lib (srgb_from_xyz100 lib (cielab_to_xyz100 lib (NaN, NaN, NaN))))))
        \<and> (\<exists>img. get_srgb1 lib z alpha ''OKLAB'' = Inr img
          \<and> pixel img i = map3 clip_lower (map3 clip_upper
              (srgb_to_rgb1 lib (srgb_from_xyz100 lib (oklab_to_xyz100 lib (NaN, NaN, NaN))))))
        \<and> (\<exists>img. get_srgb1 lib z alpha ''HSL'' = Inr img
          \<and> pixel img i = map3 clip_lower (hsl_to_rgb1 lib
              (hsl_vals NaN (arctan2 (cimag (data z ! i)) (creal (data z ! i)))))))
    \<and> (0 \<le> alpha \<and> i < length (data z)
          \<and> (creal (data z ! i) = NaN \<or> cimag (data z ! i) = NaN) \<longrightarrow>
        (\<exists>img. get_srgb1 lib z alpha ''CAM16'' = Inr img
          \<and> pixel img i = multiplied_and_clipped
              (srgb_to_rgb1 lib (srgb_from_xyz100 lib (cam16_to_xyz100 lib
                (Fin 100 * abs_scaling alpha (np_abs (data z ! i)), NaN, NaN)))))
        \<and> (\<exists>img. get_srgb1 lib z alpha ''CIELAB'' = Inr img
          \<and> pixel img i = map3 clip_lower (map3 clip_upper
              (srgb_to_rgb1 lib (srgb_from_xyz100 lib (cielab_to_xyz100 lib
                (Fin 100 * abs_scaling alpha (np_abs (data z ! i)), NaN, NaN))))))
        \<and> (\<exists>img. get_srgb1 lib z alpha ''OKLAB'' = Inr img
          \<and> pixel img i = map3 clip_lower (map3 clip_upper
              (srgb_to_rgb1 lib (srgb_from_xyz100 lib (oklab_to_xyz100 lib
                (Fin 4.64158795 * abs_scaling alpha (np_abs (data z ! i)), NaN, NaN))))))
        \<and> (\<exists>img. get_srgb1 lib z alpha ''HSL'' = Inr img
          \<and> pixel img i = map3 clip_lower (hsl_to_rgb1 lib
              (NaN, Fin 1, abs_scaling alpha (np_abs (data z ! i))))))
    \<and> (0 < alpha \<and> \<not> finite_sample c \<longrightarrow> abs_scaling alpha (np_abs c) = NaN)
    \<and> (creal c = NaN \<or> cimag c = NaN \<longrightarrow> arctan2 (cimag c) (creal c) = NaN)
    \<and> snd (snd (hsl_vals NaN a)) = NaN
    \<and> multiplied_and_clipped (NaN, NaN, NaN) = (NaN, NaN, NaN)
    \<and> map3 clip_lower (map3 clip_upper (NaN, NaN, NaN)) = (NaN, NaN, NaN)
    \<and> map3 clip_lower (NaN, NaN, NaN) = (NaN, NaN, NaN)
    \<and> abs_scaling 0 (np_abs c) = Fin (1 / 2)"
proof -
  have p: "0 < alpha \<and> i < length (data z) \<and> \<not> finite_sample (data z ! i) \<longrightarrow>
        (\<exists>img. get_srgb1 lib z alpha ''CAM16'' = Inr img
          \<and> pixel img i = multiplied_and_clipped
              (srgb_to_rgb1 lib (srgb_from_xyz100 lib (cam16_to_xyz100 lib (NaN, NaN, NaN)))))
        \<and> (\<exists>img. get_srgb1 lib z alpha ''CIELAB'' = Inr img
          \<and> pixel img i = map3 clip_lower (map3 clip_upper
              (srgb_to_rgb1 lib (srgb_from_xyz100 lib (cielab_to_xyz100 lib (NaN, NaN, NaN))))))
        \<and> (\<exists>img. get_srgb1 lib z alpha ''OKLAB'' = Inr img
          \<and> pixel img i = map3 clip_lower (map3 clip_upper
              (srgb_to_rgb1 lib (srgb_from_xyz100 lib (oklab_to_xyz100 lib (NaN, NaN, NaN))))))
        \<and> (\<exists>img. get_srgb1 lib z alpha ''HSL'' = Inr img
          \<and> pixel img i = map3 clip_lower (hsl_to_rgb1 lib
              (hsl_vals NaN (arctan2 (cimag (data z ! i)) (creal (data z ! i))))))"
    using not_finite_pixel [of alpha i z lib] by blast
  have q: "0 \<le> alpha \<and> i < length (data z)
          \<and> (creal (data z ! i) = NaN \<or> cimag (data z ! i) = NaN) \<longrightarrow>
        (\<exists>img. get_srgb1 lib z alpha ''CAM16'' = Inr img
          \<and> pixel img i = multiplied_and_clipped
              (srgb_to_rgb1 lib (srgb_from_xyz100 lib (cam16_to_xyz100 lib
                (Fin 100 * abs_scaling alpha (np_abs (data z ! i)), NaN, NaN)))))
        \<and> (\<exists>img. get_srgb1 lib z alpha ''CIELAB'' = Inr img
          \<and> pixel img i = map3 clip_lower (map3 clip_upper
              (srgb_to_rgb1 lib (srgb_from_xyz100 lib (cielab_to_xyz100 lib
                (Fin 100 * abs_scaling alpha (np_abs (data z ! i)), NaN, NaN))))))
        \<and> (\<exists>img. get_srgb1 lib z alpha ''OKLAB'' = Inr img
          \<and> pixel img i = map3 clip_lower (map3 clip_upper
              (srgb_to_rgb1 lib (srgb_from_xyz100 lib (oklab_to_xyz100 lib
                (Fin 4.64158795 * abs_scaling alpha (np_abs (data z ! i)), NaN, NaN))))))
        \<and> (\<exists>img. get_srgb1 lib z alpha ''HSL'' = Inr img
          \<and> pixel img i = map3 clip_lower (hsl_to_rgb1 lib
              (NaN, Fin 1, abs_scaling alpha (np_abs (data z ! i)))))"
    using nan_part_pixel [of alpha i z lib] by blast
  have s: "0 < alpha \<and> \<not> finite_sample c \<longrightarrow> abs_scaling alpha (np_abs c) = NaN"
    by (simp add: abs_scaling_not_finite)
  have n: "creal c = NaN \<or> cimag c = NaN \<longrightarrow> arctan2 (cimag c) (creal c) = NaN"
    using arctan2_NaN [of c] by blast
  have r1: "get_srgb1 lib z alpha colorspace = Inl InvalidParameter \<longleftrightarrow> alpha < 0"
    by (rule get_srgb1_invalid_iff)
  have r2: "isl (get_srgb1 lib z alpha colorspace) \<longleftrightarrow> alpha < 0 \<or> \<not> recognized colorspace"
    by (rule get_srgb1_raises_iff)
  have k: "abs_scaling 0 (np_abs c) = Fin (1 / 2)"
    by (rule abs_scaling_alpha_zero)
  show ?thesis
    by (intro conjI) (rule r1 r2 p q s n k pts_NaN_scaled(4) clipping_keeps_NaN)+
qed

lemma gray_lib_NaN:
  "srgb_to_rgb1 gray_lib (srgb_from_xyz100 gray_lib (cam16_to_xyz100 gray_lib (NaN, NaN, NaN)))
    = (NaN, NaN, NaN)"
  by (simp add: gray_lib_def)

lemma nan_samples_not_finite:
  "0 < length (data nan_samples)" "1 < length (data nan_samples)"
  "\<not> finite_sample (data nan_samples ! 0)" "\<not> finite_sample (data nan_samples ! 1)"
  "data nan_samples ! 0 = (NaN, Fin 0)" "data nan_samples ! 1 = (Fin 1, PInf)"
  by (simp_all add: nan_samples_def finite_sample_def creal_def cimag_def)

theorem C9_failures_and_propagation_witness:
  "get_srgb1 gray_lib nan_samples (- 1) ''CAM16'' = Inl (AssertionError [])
    \<and> \<not> isl (get_srgb1 gray_lib nan_samples 1 ''CAM16'')
    \<and> (\<exists>img. get_srgb1 gray_lib nan_samples 1 ''CAM16'' = Inr img
          \<and> pixel img 0 = (NaN, NaN, NaN))
    \<and> (\<exists>img. get_srgb1 gray_lib nan_samples 1 ''CAM16'' = Inr img
          \<and> pixel img 1 = (NaN, NaN, NaN))
    \<and> abs_scaling 1 (np_abs (Fin 1, PInf)) = NaN
    \<and> arctan2 (cimag (NaN, Fin 0)) (creal (NaN, Fin 0)) = NaN"
proof -
  have r: "recognized ''CAM16''"
    by (simp add: recognized_def same_ignoring_case_def)
  have a: "get_srgb1 gray_lib nan_samples (- 1) ''CAM16'' = Inl (AssertionError [])"
    using C9_failures_and_propagation [of gray_lib nan_samples "- 1" "''CAM16''"]
    by (simp add: InvalidParameter_def)
  note t0 = C9_failures_and_propagation [of gray_lib nan_samples 1 "''CAM16''" 0 "(NaN, Fin 0)"]
  note t1 = C9_failures_and_propagation [of gray_lib nan_samples 1 "''CAM16''" 1 "(Fin 1, PInf)"]
  have b: "\<not> isl (get_srgb1 gray_lib nan_samples 1 ''CAM16'')"
    using t0 r by simp
  have h0: "(0::real) < 1 \<and> 0 < length (data nan_samples) \<and> \<not> finite_sample (data nan_samples ! 0)"
    using nan_samples_not_finite by simp
  have c: "\<exists>img. get_srgb1 gray_lib nan_samples 1 ''CAM16'' = Inr img
          \<and> pixel img 0 = (NaN, NaN, NaN)"
    using t0 [THEN conjunct2, THEN conjunct2, THEN conjunct1, rule_format, OF h0, THEN conjunct1]
    by (simp only: gray_lib_NaN clipping_keeps_NaN)
  have h1: "(0::real) < 1 \<and> 1 < length (data nan_samples) \<and> \<not> finite_sample (data nan_samples ! 1)"
    using nan_samples_not_finite by simp
  have d: "\<exists>img. get_srgb1 gray_lib nan_samples 1 ''CAM16'' = Inr img
          \<and> pixel img 1 = (NaN, NaN, NaN)"
    using t1 [THEN conjunct2, THEN conjunct2, THEN conjunct1, rule_format, OF h1, THEN conjunct1]
    by (simp only: gray_lib_NaN clipping_keeps_NaN)
  have f: "\<not> finite_sample (Fin 1, PInf)" "creal (NaN, Fin 0) = NaN"
    by (simp_all add: finite_sample_def creal_def cimag_def)
  have e: "abs_scaling 1 (np_abs (Fin 1, PInf)) = NaN"
    using t1 f by simp
  have g: "arctan2 (cimag (NaN, Fin 0)) (creal (NaN, Fin 0)) = NaN"
    using t0 f by simp
  show ?thesis using a b c d e g by simp
qed

text \<open>
  With the accepted \<open>alpha = 0\<close> the infinite sample \<open>\<infinity> + 0i\<close> is scaled to 0.5 and has the
  angle 0: with a library that decodes to the gray of the lightness, the CAM16 branch
  returns the finite colour 0.55 in each channel, and no \<open>NaN\<close> or infinity reaches the
  output.
\<close>

lemma gray_cam16_half:
  "cam16_srgb_vals gray_lib (Fin (1 / 2)) (Fin 0) = (Fin 0.55, Fin 0.55, Fin 0.55)"
  by (simp add: cam16_srgb_vals_def cam16_pts_def gray_lib_def Let_def map3_def
      clip_lower_def clip_upper_def minus_fl_def)

theorem C9_alpha_zero_counterexample:
  "\<not> finite_sample (PInf, Fin 0)
    \<and> abs_scaling 0 (np_abs (PInf, Fin 0)) = Fin (1 / 2)
    \<and> get_srgb1 gray_lib inf_sample 0 ''CAM16'' =
        Inr \<lparr>shape = [1, 3], data = [Fin 0.55, Fin 0.55, Fin 0.55]\<rparr>"
proof -
  have a: "arctan2 (cimag (PInf, Fin 0)) (creal (PInf, Fin 0)) = Fin 0"
    by (simp add: creal_def cimag_def)
  have "get_srgb1 gray_lib inf_sample 0 ''CAM16'' =
      Inr (moveaxis [1] [cam16_srgb_vals gray_lib (Fin (1 / 2)) (Fin 0)])"
    by (simp add: get_srgb1_cam16 upper_names inf_sample_def abs_scaling_alpha_zero a)
  then show ?thesis
    by (simp add: gray_cam16_half moveaxis_def abs_scaling_alpha_zero finite_sample_def creal_def)
qed

subsection \<open>Shape and range of the image\<close>




lemma in_unit_nonneg: "in_unit v \<Longrightarrow> Fin 0 \<le> v"
  by (simp add: in_unit_def)

























subsection \<open>The grid and the calls of \<^verbatim>\<open>plot\<close>\<close>

lemma bind_err_Inr:
  "bind_err m k = Inr r \<longleftrightarrow> (\<exists>v. m = Inr v \<and> k v = Inr r)"
  by (cases m) (simp_all add: bind_err_def)

lemma linspace_returns:
  assumes "0 < num"
  shows "\<exists>xs. linspace start stop num = Inr xs \<and> xs \<noteq> []"
  using assms by (simp add: linspace_def)

lemma get_z_grid_returns:
  assumes "0 < fst n" and "0 < snd n"
  shows "\<exists>Z. get_z_grid xminmax yminmax n = Inr Z \<and> data Z \<noteq> []"
proof -
  define hx where "hx = (snd xminmax - fst xminmax) / real_of_int (fst n)"
  define hy where "hy = (snd yminmax - fst yminmax) / real_of_int (snd n)"
  obtain x where x: "linspace (fst xminmax + hx / 2) (snd xminmax - hx / 2) (fst n) = Inr x"
      "x \<noteq> []"
    using linspace_returns [OF assms(1)] by blast
  obtain y where y: "linspace (fst yminmax + hy / 2) (snd yminmax - hy / 2) (snd n) = Inr y"
      "y \<noteq> []"
    using linspace_returns [OF assms(2)] by blast
  have "get_z_grid xminmax yminmax n =
      Inr \<lparr>shape = [length y, length x],
           data = concat (map (\<lambda>yj. map (\<lambda>xi. (xi, yj)) x) y)\<rparr>"
    using assms x(1) y(1)
    by (simp add: get_z_grid_def Let_def bind_err_def hx_def hy_def)
  moreover have "concat (map (\<lambda>yj. map (\<lambda>xi. (xi, yj)) x) y) \<noteq> []"
    using x(2) y(2) by (cases x; cases y) simp_all
  ultimately show ?thesis by simp
qed

lemma np_min_max_returns:
  assumes "vs \<noteq> []"
  shows "\<exists>m. np_min vs = Inr m" and "\<exists>m. np_max vs = Inr m"
  using assms by (cases vs; simp)+

lemma grid_extent_returns:
  assumes "data Z \<noteq> []"
  shows "\<exists>e. grid_extent Z = Inr e"
proof -
  have a: "map fst (data Z) \<noteq> []" "map snd (data Z) \<noteq> []" using assms by simp_all
  obtain x0 x1 y0 y1 where "np_min (map fst (data Z)) = Inr x0" "np_max (map fst (data Z)) = Inr x1"
      "np_min (map snd (data Z)) = Inr y0" "np_max (map snd (data Z)) = Inr y1"
    using np_min_max_returns [OF a(1)] np_min_max_returns [OF a(2)] by blast
  then show ?thesis by (simp add: grid_extent_def bind_err_def)
qed

text \<open>
  What a call of \<^verbatim>\<open>plot\<close> that returns has done: the image, then the magnitude contours
  if requested, then the phase contours if requested, and the masking of the segments
  the extractor returned for the phase contours.
\<close>

lemma plot_Inr:
  assumes "plot lib plt f xminmax yminmax n alpha colorspace contour_abs contour_arg
    = Inr (calls, segs)"
  shows "\<exists>img extent X Y fZ.
      calls = [Imshow img extent]
        @ (if contour_abs then [Contour X Y (map_nd np_abs fZ) abs_levels gray] else [])
        @ (if contour_arg then [Contour X Y (map_nd np_angle fZ) arg_levels gray] else [])
      \<and> segs = (if contour_arg
          then mask_allsegs f arg_levels (allsegs plt X Y (map_nd np_angle fZ) arg_levels)
          else [])"
proof -
  from assms obtain Z img extent where
    r: "(calls, segs) =
      (let fZ = map_nd (\<lambda>c. f (Fin (fst c), Fin (snd c))) Z;
           Zreal = map_nd (\<lambda>c. Fin (fst c)) Z;
           Zimag = map_nd (\<lambda>c. Fin (snd c)) Z;
           calls1 = [Imshow img extent];
           calls2 =
             (if contour_abs
              then [Contour Zreal Zimag (map_nd np_abs fZ) abs_levels gray]
              else []);
           field = map_nd np_angle fZ;
           calls3 =
             (if contour_arg
              then [Contour Zreal Zimag field arg_levels gray]
              else []);
           segs =
             (if contour_arg
              then mask_allsegs f arg_levels (allsegs plt Zreal Zimag field arg_levels)
              else [])
       in (calls1 @ calls2 @ calls3, segs))"
    unfolding plot_def Let_def
    by (auto simp: bind_err_Inr split: if_splits)
  then show ?thesis unfolding Let_def by blast
qed

lemma plot_returns:
  assumes "fst xminmax < snd xminmax" and "fst yminmax < snd yminmax"
    and "grid_counts n = Inr nxy" and "0 < fst nxy" and "0 < snd nxy"
    and "0 \<le> alpha" and "recognized colorspace"
  shows "\<exists>calls segs.
    plot lib plt f xminmax yminmax n alpha colorspace contour_abs contour_arg = Inr (calls, segs)"
proof -
  obtain Z where Z: "get_z_grid xminmax yminmax nxy = Inr Z" "data Z \<noteq> []"
    using get_z_grid_returns [OF assms(4,5)] by blast
  obtain img where img:
    "get_srgb1 lib (map_nd (\<lambda>c. f (Fin (fst c), Fin (snd c))) Z) alpha colorspace = Inr img"
    using get_srgb1_returns_iff [OF assms(6)] assms(7) by blast
  obtain e where e: "grid_extent Z = Inr e"
    using grid_extent_returns [OF Z(2)] by blast
  show ?thesis
    using assms(1,2,3) Z(1) img e by (simp add: plot_def bind_err_def Let_def)
qed

subsection \<open>The contour levels\<close>

text \<open>
  C10. The contour levels are constants of \<^verbatim>\<open>plot\<close>: whatever its arguments, a call that
  returns has drawn the image, then, with \<^verbatim>\<open>contour_abs\<close>, the contours of the
  magnitude at the levels 0.1 and 100.0, then, with \<^verbatim>\<open>contour_arg\<close>, the contours of the
  phase at the levels \<open>-\<pi>/2\<close>, 0 and \<open>\<pi>/2\<close>; no argument of \<^verbatim>\<open>plot\<close> enters the levels.
\<close>

theorem C10_contour_levels:
  assumes "plot lib plt f xminmax yminmax n alpha colorspace contour_abs contour_arg
    = Inr (calls, segs)"
  shows "contour_levels calls =
      (if contour_abs then [[0.1, 100.0]] else [])
      @ (if contour_arg then [[- (pi / 2), 0, pi / 2]] else [])
    \<and> (\<exists>img extent X Y fZ.
        calls = [Imshow img extent]
          @ (if contour_abs then [Contour X Y (map_nd np_abs fZ) [0.1, 100.0] gray] else [])
          @ (if contour_arg
             then [Contour X Y (map_nd np_angle fZ) [- (pi / 2), 0, pi / 2] gray] else []))"
proof -
  obtain img extent X Y fZ where c:
    "calls = [Imshow img extent]
        @ (if contour_abs then [Contour X Y (map_nd np_abs fZ) abs_levels gray] else [])
        @ (if contour_arg then [Contour X Y (map_nd np_angle fZ) arg_levels gray] else [])"
    using plot_Inr [OF assms] by blast
  have l: "abs_levels = [0.1, 100.0]" "arg_levels = [- (pi / 2), 0, pi / 2]"
    by (simp_all add: abs_levels_def arg_levels_def)
  have "contour_levels calls =
      (if contour_abs then [[0.1, 100.0]] else [])
      @ (if contour_arg then [[- (pi / 2), 0, pi / 2]] else [])"
    unfolding c l by simp
  then show ?thesis using c unfolding l by blast
qed

lemma example_plot_returns:
  "\<exists>calls segs. plot gray_lib axis_plt (\<lambda>z. z) (- 2, 2) (- 2, 2) (N 1) 1 ''cam16'' ca cb
    = Inr (calls, segs)"
proof -
  have r: "recognized ''cam16''"
    using same_ignoring_case_ascii [OF cam16_folded(1) names_ascii(1)]
    by (simp add: recognized_def names_folded cam16_folded)
  show ?thesis
    by (rule plot_returns [where nxy = "(1, 1)"]) (simp_all add: r)
qed

theorem C10_contour_levels_witness:
  "\<exists>calls segs.
     plot gray_lib axis_plt (\<lambda>z. z) (- 2, 2) (- 2, 2) (N 1) 1 ''cam16'' True True
       = Inr (calls, segs)
     \<and> contour_levels calls = [[0.1, 100.0], [- (pi / 2), 0, pi / 2]]"
proof -
  obtain calls segs where p:
    "plot gray_lib axis_plt (\<lambda>z. z) (- 2, 2) (- 2, 2) (N 1) 1 ''cam16'' True True
       = Inr (calls, segs)"
    using example_plot_returns by blast
  have "contour_levels calls = [[0.1, 100.0], [- (pi / 2), 0, pi / 2]]"
    using C10_contour_levels [OF p] by simp
  then show ?thesis using p by blast
qed

subsection \<open>Masking of the phase contours\<close>

lemma mask_allsegs_length: "length (mask_allsegs f levels raw) = length raw"
  by (simp add: mask_allsegs_def)

lemma mask_allsegs_nth:
  assumes "k < length levels" and "k < length raw"
  shows "mask_allsegs f levels raw ! k = map (mask_segment f (levels ! k)) (raw ! k)"
  using assms by (simp add: mask_allsegs_def nth_append)

lemma mask_allsegs_beyond:
  assumes "length levels \<le> k" and "k < length raw"
  shows "mask_allsegs f levels raw ! k = raw ! k"
  using assms by (simp add: mask_allsegs_def nth_append min_def)

lemma mask_point_eq:
  "mask_point f level p =
     (if is_false (np_angle (f (cadd (fst p, Fin 0) (cmul (Fin 0, Fin 1) (snd p, Fin 0))))) level
      then (NaN, NaN) else p)"
  by (cases p) (simp add: mask_point_def Let_def)

lemma point_number_finite:
  "cadd (Fin x, Fin 0) (cmul (Fin 0, Fin 1) (Fin y, Fin 0)) = (Fin x, Fin y)"
  by (simp add: cadd_def cmul_def creal_def cimag_def minus_fl_def)

lemma is_false_finite: "is_false (Fin a) level \<longleftrightarrow> near_branch_cut a level"
  by (simp add: is_false_def near_branch_cut_def minus_fl_def)

lemma is_false_NaN: "\<not> is_false NaN level"
  by (simp add: is_false_def minus_fl_def)

text \<open>
  C4. When phase contours are requested, \<^verbatim>\<open>plot\<close> asks the extractor for the contours of
  the phase at the three levels and leaves the segment lists it returned with the same
  lengths; a point \<open>p\<close> of a segment of the \<open>k\<close>-th level is replaced by \<open>(NaN, NaN)\<close>
  exactly when the angle of \<open>f\<close>, evaluated again at the complex number \<open>x + 1j * y\<close> of
  the point, satisfies \<open>|angle - \<pi>| < |angle - level| \<or> |angle + \<pi>| < |angle - level|\<close>,
  and is left as it is otherwise. The number of a point with finite coordinates is the
  point itself, the comparison on a finite angle is the one on real numbers, and it is
  false for an angle \<open>NaN\<close>.
\<close>

theorem C4_contour_masking:
  assumes "plot lib plt f xminmax yminmax n alpha colorspace contour_abs True
    = Inr (calls, segs)"
  shows "\<exists>X Y field raw.
      last calls = Contour X Y field arg_levels gray
      \<and> raw = allsegs plt X Y field arg_levels
      \<and> length segs = length raw
      \<and> (\<forall>k < length raw. length (segs ! k) = length (raw ! k)
          \<and> (\<forall>j < length (raw ! k). length (segs ! k ! j) = length (raw ! k ! j)
              \<and> (\<forall>i < length (raw ! k ! j).
                    segs ! k ! j ! i =
                      (if k < length arg_levels
                       then
                         (if is_false (np_angle (f (cadd (fst (raw ! k ! j ! i), Fin 0)
                                (cmul (Fin 0, Fin 1) (snd (raw ! k ! j ! i), Fin 0)))))
                               (arg_levels ! k)
                          then (NaN, NaN) else raw ! k ! j ! i)
                       else raw ! k ! j ! i))))
      \<and> cadd (Fin x, Fin 0) (cmul (Fin 0, Fin 1) (Fin y, Fin 0)) = (Fin x, Fin y)
      \<and> (is_false (Fin a) level \<longleftrightarrow>
            \<bar>a - pi\<bar> < \<bar>a - level\<bar> \<or> \<bar>a + pi\<bar> < \<bar>a - level\<bar>)
      \<and> \<not> is_false NaN level"
proof -
  obtain img extent X Y fZ where c:
    "calls = [Imshow img extent]
        @ (if contour_abs then [Contour X Y (map_nd np_abs fZ) abs_levels gray] else [])
        @ [Contour X Y (map_nd np_angle fZ) arg_levels gray]"
    and s: "segs = mask_allsegs f arg_levels (allsegs plt X Y (map_nd np_angle fZ) arg_levels)"
    using plot_Inr [OF assms] by auto
  define raw where "raw = allsegs plt X Y (map_nd np_angle fZ) arg_levels"
  have l: "last calls = Contour X Y (map_nd np_angle fZ) arg_levels gray"
    unfolding c by simp
  have pt: "length (segs ! k) = length (raw ! k)
          \<and> (\<forall>j < length (raw ! k). length (segs ! k ! j) = length (raw ! k ! j)
              \<and> (\<forall>i < length (raw ! k ! j).
                    segs ! k ! j ! i =
                      (if k < length arg_levels
                       then
                         (if is_false (np_angle (f (cadd (fst (raw ! k ! j ! i), Fin 0)
                                (cmul (Fin 0, Fin 1) (snd (raw ! k ! j ! i), Fin 0)))))
                               (arg_levels ! k)
                          then (NaN, NaN) else raw ! k ! j ! i)
                       else raw ! k ! j ! i)))"
    if k: "k < length raw" for k
  proof (cases "k < length arg_levels")
    case True
    have "segs ! k = map (mask_segment f (arg_levels ! k)) (raw ! k)"
      unfolding s raw_def using True k by (intro mask_allsegs_nth) (simp_all add: raw_def)
    then show ?thesis using True
      by (simp add: mask_segment_def mask_point_eq)
  next
    case False
    then have "segs ! k = raw ! k"
      unfolding s raw_def using k by (intro mask_allsegs_beyond) (simp_all add: raw_def)
    then show ?thesis using False by simp
  qed
  have n: "length segs = length raw"
    unfolding s raw_def by (rule mask_allsegs_length)
  have f: "is_false (Fin a) level \<longleftrightarrow>
            \<bar>a - pi\<bar> < \<bar>a - level\<bar> \<or> \<bar>a + pi\<bar> < \<bar>a - level\<bar>"
    by (simp add: is_false_finite near_branch_cut_def)
  show ?thesis
    using l n pt point_number_finite [of x y] f is_false_NaN [of level] raw_def by blast
qed

theorem C4_contour_masking_witness:
  "\<exists>calls segs.
     plot gray_lib axis_plt (\<lambda>z. z) (- 2, 2) (- 2, 2) (N 1) 1 ''cam16'' False True
       = Inr (calls, segs)
     \<and> length segs = 3
     \<and> segs ! 0 ! 0 ! 0 = (NaN, NaN) \<and> segs ! 0 ! 0 ! 1 = (Fin 1, Fin 0)
     \<and> segs ! 1 ! 0 ! 0 = (NaN, NaN) \<and> segs ! 1 ! 0 ! 1 = (Fin 1, Fin 0)
     \<and> segs ! 2 = []"
proof -
  obtain calls segs where p:
    "plot gray_lib axis_plt (\<lambda>z. z) (- 2, 2) (- 2, 2) (N 1) 1 ''cam16'' False True
       = Inr (calls, segs)"
    using example_plot_returns by blast
  define raw :: "point list list list" where
    "raw = [[[(Fin (- 1), Fin 0), (Fin 1, Fin 0)]], [[(Fin (- 1), Fin 0), (Fin 1, Fin 0)]], []]"
  have raw: "allsegs axis_plt X Y field levels = raw" for X Y field levels
    by (simp add: axis_plt_def raw_def)
  have m: "is_false (np_angle (Fin (- 1), Fin 0)) (- (pi / 2))"
    "is_false (np_angle (Fin (- 1), Fin 0)) 0"
    "\<not> is_false (np_angle (Fin 1, Fin 0)) (- (pi / 2))"
    "\<not> is_false (np_angle (Fin 1, Fin 0)) 0"
    by (simp_all add: np_angle_def creal_def cimag_def atan2_def is_false_def minus_fl_def)
  from C4_contour_masking [OF p, of 0 0 0 0]
  have t: "length segs = length raw
      \<and> (\<forall>k < length raw. length (segs ! k) = length (raw ! k)
          \<and> (\<forall>j < length (raw ! k). length (segs ! k ! j) = length (raw ! k ! j)
              \<and> (\<forall>i < length (raw ! k ! j).
                    segs ! k ! j ! i =
                      (if k < length arg_levels
                       then
                         (if is_false (np_angle (cadd (fst (raw ! k ! j ! i), Fin 0)
                                (cmul (Fin 0, Fin 1) (snd (raw ! k ! j ! i), Fin 0))))
                               (arg_levels ! k)
                          then (NaN, NaN) else raw ! k ! j ! i)
                       else raw ! k ! j ! i))))"
    unfolding raw by blast
  note tk = t [THEN conjunct2, rule_format]
  have len: "length segs = 3" using t by (simp add: raw_def)
  have pt: "segs ! k ! 0 ! i =
      (if is_false (np_angle (cadd (fst (raw ! k ! 0 ! i), Fin 0)
                                (cmul (Fin 0, Fin 1) (snd (raw ! k ! 0 ! i), Fin 0))))
            (arg_levels ! k)
       then (NaN, NaN) else raw ! k ! 0 ! i)"
    if "k < 2" "i < 2" for k i
  proof -
    have k: "k < length raw" "k < length arg_levels"
      using that by (simp_all add: raw_def arg_levels_def)
    have j: "0 < length (raw ! k)"
      using that by (cases k) (simp_all add: raw_def)
    have i: "i < length (raw ! k ! 0)"
      using that by (cases k) (simp_all add: raw_def)
    show ?thesis
      using tk [OF k(1), THEN conjunct2, rule_format, OF j, THEN conjunct2, rule_format, OF i] k(2)
      by simp
  qed
  have a: "segs ! 0 ! 0 ! 0 = (NaN, NaN)"
    using pt [of 0 0] m by (simp add: raw_def arg_levels_def point_number_finite)
  have b: "segs ! 0 ! 0 ! 1 = (Fin 1, Fin 0)"
    using pt [of 0 1] m by (simp add: raw_def arg_levels_def point_number_finite)
  have c: "segs ! 1 ! 0 ! 0 = (NaN, NaN)"
    using pt [of 1 0] m by (simp add: raw_def arg_levels_def point_number_finite)
  have d: "segs ! 1 ! 0 ! 1 = (Fin 1, Fin 0)"
    using pt [of 1 1] m by (simp add: raw_def arg_levels_def point_number_finite)
  have "length (segs ! 2) = length (raw ! 2)"
    using tk [of 2] by (simp add: raw_def)
  then have e: "segs ! 2 = []" by (simp add: raw_def)
  show ?thesis using p len a b c d e by blast
qed

subsection \<open>The angle of a finite sample\<close>

text \<open>
  \<open>atan2 y x\<close> is the polar angle of the point \<open>(x, y)\<close>: it lies in \<open>(-\<pi>, \<pi>]\<close>, and the
  point is its distance from the origin times the cosine and the sine of the angle.
\<close>

lemma atan2_range: "- pi < atan2 y x \<and> atan2 y x \<le> pi"
proof -
  have b: "- (pi / 2) < arctan (y / x)" "arctan (y / x) < pi / 2"
    by (rule arctan_lbound, rule arctan_ubound)
  have p: "0 < pi" by simp
  consider "0 < x" | "x < 0" "0 \<le> y" | "x < 0" "y < 0" | "x = 0"
    by linarith
  then show ?thesis
  proof cases
    case 1
    then show ?thesis using b p by (simp add: atan2_def)
  next
    case 2
    then have "y / x \<le> 0" by (simp add: divide_nonneg_neg)
    then have "arctan (y / x) \<le> 0" by (simp only: arctan_le_zero_iff)
    then show ?thesis using 2 b p by (simp add: atan2_def)
  next
    case 3
    then have "0 < y / x" by (simp add: divide_neg_neg)
    then have "0 < arctan (y / x)" by (simp only: zero_less_arctan_iff)
    then show ?thesis using 3 b p by (simp add: atan2_def)
  next
    case 4
    then have "atan2 y x = pi / 2 \<or> atan2 y x = - (pi / 2) \<or> atan2 y x = 0"
      by (simp add: atan2_def)
    moreover have "- pi < pi / 2 \<and> pi / 2 \<le> pi" using p by linarith
    moreover have "- pi < - (pi / 2) \<and> - (pi / 2) \<le> pi" using p by linarith
    moreover have "- pi < 0 \<and> 0 \<le> pi" using p by linarith
    ultimately show ?thesis by metis
  qed
qed

lemma polar_arctan:
  assumes "x \<noteq> 0"
  shows "\<bar>x\<bar> = sqrt (x\<^sup>2 + y\<^sup>2) * cos (arctan (y / x))"
    and "y * sgn x = sqrt (x\<^sup>2 + y\<^sup>2) * sin (arctan (y / x))"
proof -
  have "1 + (y / x)\<^sup>2 = (x\<^sup>2 + y\<^sup>2) / x\<^sup>2"
    using assms by (simp add: field_simps power2_eq_square)
  then have s: "sqrt (1 + (y / x)\<^sup>2) = sqrt (x\<^sup>2 + y\<^sup>2) / \<bar>x\<bar>"
    by (simp add: real_sqrt_divide)
  have n: "sqrt (x\<^sup>2 + y\<^sup>2) \<noteq> 0"
    using assms by simp
  show "\<bar>x\<bar> = sqrt (x\<^sup>2 + y\<^sup>2) * cos (arctan (y / x))"
    unfolding cos_arctan s using n assms by simp
  have "y * sgn x = (y / x) * \<bar>x\<bar>"
    using assms by (simp add: sgn_real_def)
  then show "y * sgn x = sqrt (x\<^sup>2 + y\<^sup>2) * sin (arctan (y / x))"
    unfolding sin_arctan s using n assms by simp
qed

lemma atan2_polar:
  "x = sqrt (x\<^sup>2 + y\<^sup>2) * cos (atan2 y x) \<and> y = sqrt (x\<^sup>2 + y\<^sup>2) * sin (atan2 y x)"
proof -
  consider "0 < x" | "x < 0" "0 \<le> y" | "x < 0" "y < 0" | "x = 0" "0 < y" | "x = 0" "y < 0"
    | "x = 0" "y = 0"
    by linarith
  then show ?thesis
  proof cases
    case 1
    then show ?thesis using polar_arctan [of x y] by (simp add: atan2_def)
  next
    case 2
    then show ?thesis using polar_arctan [of x y] by (simp add: atan2_def)
  next
    case 3
    then show ?thesis using polar_arctan [of x y] by (simp add: atan2_def)
  next
    case 4
    then show ?thesis by (simp add: atan2_def)
  next
    case 5
    then show ?thesis by (simp add: atan2_def)
  next
    case 6
    then show ?thesis by (simp add: atan2_def)
  qed
qed



end
